theory Spec2Isabelle
  imports Main "HOL-Library.Char_ord" "HOL-Library.List_Lexorder" "HOL-Library.Multiset"
begin

section \<open>Data model (backend\_models.py)\<close>

text \<open>
  The values of JSON columns and of the dictionaries the services pass around. A Python
  dict is an association list in insertion order; \<open>JNull\<close> is Python's \<open>None\<close> (SQL NULL
  in a column). A float is kept as its printed text: no claim computes with one.
  \<open>JOther\<close> is any other Python value, kept as its printed text: a numpy \<open>dtype\<close> or
  \<open>int64\<close>, a \<open>datetime\<close>, or a dict with a key that is not a \<open>str\<close>, such as the
  \<open>dtypes\<close> entry \<open>df.dtypes.value_counts().to_dict()\<close> of a profile
  (backend\_advanced\_analyzer.py), whose keys are \<open>dtype\<close> objects.
\<close>

datatype json =
    JNull
  | JBool bool
  | JInt int
  | JFloat string
  | JStr string
  | JList "json list"
  | JDict "(string \<times> json) list"
  | JOther string

type_synonym pydict = "(string \<times> json) list"


text \<open>\<open>d.get(k)\<close>: the value under \<open>k\<close>, \<open>None\<close> when the key is absent.\<close>

definition dict_get :: "pydict \<Rightarrow> string \<Rightarrow> json" where
  "dict_get d k = (case map_of d k of None \<Rightarrow> JNull | Some v \<Rightarrow> v)"

text \<open>\<open>d[k] = v\<close>: an existing key keeps its position, a new key goes last.\<close>

fun dict_set :: "pydict \<Rightarrow> string \<Rightarrow> json \<Rightarrow> pydict" where
  "dict_set [] k v = [(k, v)]"
| "dict_set ((k', v') # d) k v =
     (if k' = k then (k, v) # d else (k', v') # dict_set d k v)"

record source =
  src_id :: nat
  src_name :: string
  src_type :: string
  src_platform :: "string option"
  src_config :: pydict

text \<open>
  \<open>RawEvent.content_hash\<close> is \<open>Column(String(64), index=True)\<close>: indexed, nullable and
  without \<open>unique=True\<close>; the table's \<open>Index\<close> entries carry no uniqueness either.
\<close>

record raw_event =
  ev_source_id :: nat
  ev_platform :: string
  ev_raw_json :: pydict
  ev_content_hash :: json

record analysis_result =
  ar_id :: nat
  ar_dataset_id :: nat
  ar_category :: string
  ar_metrics :: pydict
  ar_insights :: json
  ar_recommendations :: json
  ar_quality_score :: json
  ar_severity :: "string option"

record dataset =
  ds_id :: nat
  ds_name :: string
  ds_source_ids :: "nat list option"
  ds_row_count :: nat
  ds_last_refreshed_at :: "nat option"

record job =
  job_id :: nat
  job_type :: string
  job_status :: string
  job_input_data :: json
  job_output_data :: json
  job_progress :: nat
  job_error_message :: "string option"
  job_started_at :: "nat option"
  job_completed_at :: "nat option"

text \<open>
  \<open>OracleSignal.analysis_result_id\<close> is \<open>Column(Integer, ForeignKey(...),
  nullable=False)\<close>, again without a uniqueness constraint; \<open>AnalysisResult\<close> holds the
  other side as the collection \<open>oracle_signals\<close>.
\<close>

record oracle_signal =
  sig_id :: nat
  sig_analysis_result_id :: nat
  sig_severity :: string
  sig_signal_type :: "string option"
  sig_payload :: json
  sig_status :: string
  sig_tx_hash :: "string option"
  sig_tx_status :: "string option"
  sig_sent_at :: "nat option"

text \<open>
  The committed contents of the database, one list per table in insertion order, and the
  RQ queue \<open>oracle\<close> as the list of enqueued calls \<open>(job_id, analysis_result_id)\<close>.
  \<open>job_progress\<close> is the float of the source in hundredths (0.5 is 50).
\<close>

record db =
  sources :: "source list"
  raw_events :: "raw_event list"
  datasets :: "dataset list"
  analysis_results :: "analysis_result list"
  jobs :: "job list"
  oracle_signals :: "oracle_signal list"
  oracle_queue :: "(nat \<times> nat) list"

text \<open>An autoincrement primary key: above every key of the table.\<close>

definition next_id :: "nat list \<Rightarrow> nat" where
  "next_id ids = Suc (fold max ids 0)"

text \<open>\<open>db.query(T).filter(T.id == i).first()\<close> and the other single-row queries.\<close>

definition get_job :: "db \<Rightarrow> nat \<Rightarrow> job option" where
  "get_job d i = find (\<lambda>j. job_id j = i) (jobs d)"

definition get_source :: "db \<Rightarrow> nat \<Rightarrow> source option" where
  "get_source d i = find (\<lambda>s. src_id s = i) (sources d)"

definition get_dataset :: "db \<Rightarrow> nat \<Rightarrow> dataset option" where
  "get_dataset d i = find (\<lambda>x. ds_id x = i) (datasets d)"

definition get_analysis :: "db \<Rightarrow> nat \<Rightarrow> analysis_result option" where
  "get_analysis d i = find (\<lambda>a. ar_id a = i) (analysis_results d)"

definition get_signal :: "db \<Rightarrow> nat \<Rightarrow> oracle_signal option" where
  "get_signal d i = find (\<lambda>s. sig_id s = i) (oracle_signals d)"

definition signal_for_analysis :: "db \<Rightarrow> nat \<Rightarrow> oracle_signal option" where
  "signal_for_analysis d aid = find (\<lambda>s. sig_analysis_result_id s = aid) (oracle_signals d)"

text \<open>Writing a loaded row back on commit: the row with that key is replaced.\<close>

definition put_job :: "job \<Rightarrow> db \<Rightarrow> db" where
  "put_job j d = d\<lparr>jobs := map (\<lambda>x. if job_id x = job_id j then j else x) (jobs d)\<rparr>"

definition put_dataset :: "dataset \<Rightarrow> db \<Rightarrow> db" where
  "put_dataset x d =
     d\<lparr>datasets := map (\<lambda>y. if ds_id y = ds_id x then x else y) (datasets d)\<rparr>"

definition put_signal :: "oracle_signal \<Rightarrow> db \<Rightarrow> db" where
  "put_signal s d =
     d\<lparr>oracle_signals := map (\<lambda>x. if sig_id x = sig_id s then s else x) (oracle_signals d)\<rparr>"

section \<open>Oracle routes (backend\_routes\_oracle.py)\<close>

datatype detail =
    OracleNotEnabled
  | AnalysisNotFound nat
  | SeverityNotHighEnough "string option"
  | SignalAlreadyExists nat
  | SignalNotFound nat
  | CannotRetryStatus string

text \<open>\<open>HTTPException(status_code, detail)\<close>.\<close>

datatype http_error = HTTPException nat detail

record signal_response =
  resp_signal_id :: nat
  resp_job_id :: nat
  resp_status :: string

text \<open>The job row both routes create: \<open>Job(type='oracle_signal', status='pending', ...)\<close>.\<close>

definition new_oracle_job :: "db \<Rightarrow> nat \<Rightarrow> nat \<Rightarrow> job" where
  "new_oracle_job d sid aid =
     \<lparr>job_id = next_id (map job_id (jobs d)),
      job_type = ''oracle_signal'',
      job_status = ''pending'',
      job_input_data = JDict [(''oracle_signal_id'', JInt (int sid)),
                              (''analysis_result_id'', JInt (int aid))],
      job_output_data = JNull,
      job_progress = 0,
      job_error_message = None,
      job_started_at = None,
      job_completed_at = None\<rparr>"

text \<open>
  \<open>create_oracle_signal\<close> in its two halves. First the guards, up to the query for an
  existing signal: every \<open>raise\<close> is here, before any write. The first argument is
  \<open>settings.ORACLE_ENABLED\<close>.
\<close>

definition check_oracle_signal ::
  "bool \<Rightarrow> nat \<Rightarrow> db \<Rightarrow> http_error + analysis_result \<times> string" where
  "check_oracle_signal ORACLE_ENABLED analysis_result_id d =
     (if \<not> ORACLE_ENABLED then Inl (HTTPException 503 OracleNotEnabled)
      else case get_analysis d analysis_result_id of
        None \<Rightarrow> Inl (HTTPException 404 (AnalysisNotFound analysis_result_id))
      | Some analysis \<Rightarrow>
          (case ar_severity analysis of
             None \<Rightarrow> Inl (HTTPException 400 (SeverityNotHighEnough None))
           | Some severity \<Rightarrow>
               if severity \<notin> set [''high'', ''critical'']
               then Inl (HTTPException 400 (SeverityNotHighEnough (Some severity)))
               else case signal_for_analysis d analysis_result_id of
                 Some existing_signal \<Rightarrow>
                   Inl (HTTPException 400 (SignalAlreadyExists analysis_result_id))
               | None \<Rightarrow> Inr (analysis, severity)))"

text \<open>
  Then the writes: the signal row is added and committed, the job row is added and
  committed, the call is put on the queue.
\<close>

definition add_oracle_signal ::
  "analysis_result \<Rightarrow> string \<Rightarrow> nat \<Rightarrow> db \<Rightarrow> signal_response \<times> db" where
  "add_oracle_signal analysis severity analysis_result_id d =
     (let oracle_signal =
            \<lparr>sig_id = next_id (map sig_id (oracle_signals d)),
             sig_analysis_result_id = analysis_result_id,
             sig_severity = severity,
             sig_signal_type = Some ''alert'',
             sig_payload = JDict
               [(''dataset_id'', JInt (int (ar_dataset_id analysis))),
                (''category'', JStr (ar_category analysis)),
                (''quality_score'', ar_quality_score analysis),
                (''metrics_summary'', JDict (take 5 (ar_metrics analysis)))],
             sig_status = ''pending'',
             sig_tx_hash = None,
             sig_tx_status = None,
             sig_sent_at = None\<rparr>;
          d1 = d\<lparr>oracle_signals := oracle_signals d @ [oracle_signal]\<rparr>;
          job = new_oracle_job d1 (sig_id oracle_signal) analysis_result_id;
          d2 = d1\<lparr>jobs := jobs d1 @ [job]\<rparr>;
          d3 = d2\<lparr>oracle_queue := oracle_queue d2 @ [(job_id job, analysis_result_id)]\<rparr>
      in (\<lparr>resp_signal_id = sig_id oracle_signal, resp_job_id = job_id job,
           resp_status = ''pending''\<rparr>, d3))"

definition create_oracle_signal ::
  "bool \<Rightarrow> nat \<Rightarrow> db \<Rightarrow> (http_error + signal_response) \<times> db" where
  "create_oracle_signal ORACLE_ENABLED analysis_result_id d =
     (case check_oracle_signal ORACLE_ENABLED analysis_result_id d of
        Inl e \<Rightarrow> (Inl e, d)
      | Inr (analysis, severity) \<Rightarrow>
          (case add_oracle_signal analysis severity analysis_result_id d of
             (response, d3) \<Rightarrow> (Inr response, d3)))"

text \<open>
  \<open>retry_oracle_signal\<close>: the reset of the signal is committed first, then the new job
  row, then the call is put on the queue.
\<close>

definition retry_oracle_signal ::
  "bool \<Rightarrow> nat \<Rightarrow> db \<Rightarrow> (http_error + signal_response) \<times> db" where
  "retry_oracle_signal ORACLE_ENABLED signal_id d =
     (if \<not> ORACLE_ENABLED then (Inl (HTTPException 503 OracleNotEnabled), d)
      else case get_signal d signal_id of
        None \<Rightarrow> (Inl (HTTPException 404 (SignalNotFound signal_id)), d)
      | Some signal \<Rightarrow>
          if sig_status signal \<notin> set [''failed'', ''pending'']
          then (Inl (HTTPException 400 (CannotRetryStatus (sig_status signal))), d)
          else
            let signal1 = signal\<lparr>sig_status := ''pending'', sig_tx_hash := None,
                                  sig_tx_status := None, sig_sent_at := None\<rparr>;
                d1 = put_signal signal1 d;
                job = new_oracle_job d1 (sig_id signal1) (sig_analysis_result_id signal1);
                d2 = d1\<lparr>jobs := jobs d1 @ [job]\<rparr>;
                d3 = d2\<lparr>oracle_queue :=
                        oracle_queue d2 @ [(job_id job, sig_analysis_result_id signal1)]\<rparr>
            in (Inr \<lparr>resp_signal_id = sig_id signal1, resp_job_id = job_id job,
                     resp_status = ''pending''\<rparr>, d3))"

section \<open>Python text: \<open>str\<close> and \<open>repr\<close>\<close>

definition digits :: string where
  "digits = ''0123456789abcdef''"

function str_nat :: "nat \<Rightarrow> string" where
  "str_nat n = (if n < 10 then [digits ! n] else str_nat (n div 10) @ [digits ! (n mod 10)])"
  by pat_completeness auto
termination
  by (relation "measure id") auto

declare str_nat.simps [simp del]

definition str_int :: "int \<Rightarrow> string" where
  "str_int i = (if i < 0 then CHR ''-'' # str_nat (nat (- i)) else str_nat (nat i))"

fun join :: "string \<Rightarrow> string list \<Rightarrow> string" where
  "join sep [] = []"
| "join sep [x] = x"
| "join sep (x # y # ys) = x @ sep @ join sep (y # ys)"

text \<open>
  \<open>repr\<close> of a \<open>str\<close>: single quotes, unless the text holds a single quote and no double
  quote; the backslash, the chosen quote and the control characters are escaped. The
  characters here are bytes, so text beyond ASCII passes through as its UTF-8 bytes, which
  is what \<open>.encode()\<close> makes of the printable characters \<open>repr\<close> leaves alone.
\<close>

definition repr_quote :: "string \<Rightarrow> char" where
  "repr_quote s = (if CHR 0x27 \<in> set s \<and> CHR 0x22 \<notin> set s then CHR 0x22 else CHR 0x27)"

definition repr_char :: "char \<Rightarrow> char \<Rightarrow> string" where
  "repr_char q c =
     (if c = CHR 0x5C then [CHR 0x5C, CHR 0x5C]
      else if c = q then [CHR 0x5C, q]
      else if c = CHR 0x0A then [CHR 0x5C, CHR ''n'']
      else if c = CHR 0x0D then [CHR 0x5C, CHR ''r'']
      else if c = CHR 0x09 then [CHR 0x5C, CHR ''t'']
      else if (of_char c :: nat) < 32 \<or> (of_char c :: nat) = 127
        then [CHR 0x5C, CHR ''x'', digits ! ((of_char c :: nat) div 16),
              digits ! ((of_char c :: nat) mod 16)]
      else [c])"

definition repr_str :: "string \<Rightarrow> string" where
  "repr_str s = (let q = repr_quote s in q # concat (map (repr_char q) s) @ [q])"

fun repr :: "json \<Rightarrow> string" where
  "repr JNull = ''None''"
| "repr (JBool b) = (if b then ''True'' else ''False'')"
| "repr (JInt i) = str_int i"
| "repr (JFloat t) = t"
| "repr (JStr s) = repr_str s"
| "repr (JList xs) = ''['' @ join '', '' (map repr xs) @ '']''"
| "repr (JDict kvs) =
     ''{'' @ join '', '' (map (\<lambda>(k, v). repr_str k @ '': '' @ repr v) kvs) @ ''}''"
| "repr (JOther t) = t"

section \<open>Content hash (backend\_scraping\_service.py, backend\_social\_service.py)\<close>

text \<open>
  \<open>str(sorted(data.items()))\<close>. The items are pairs, compared key first; the keys of a
  dict are distinct, so the order is the order of the keys, and a list of tuples prints as
  \<open>[(k1, v1), (k2, v2)]\<close> with \<open>repr\<close> of each component.
\<close>

definition repr_item :: "string \<times> json \<Rightarrow> string" where
  "repr_item kv = ''('' @ repr_str (fst kv) @ '', '' @ repr (snd kv) @ '')''"

definition content_str :: "pydict \<Rightarrow> string" where
  "content_str data = ''['' @ join '', '' (map repr_item (sort_key fst data)) @ '']''"

text \<open>
  \<open>ScrapingService._generate_hash\<close>. \<open>sha256\<close> stands for
  \<open>hashlib.sha256(s.encode()).hexdigest()\<close>.
\<close>

definition generate_hash :: "(string \<Rightarrow> string) \<Rightarrow> pydict \<Rightarrow> string" where
  "generate_hash sha256 data = sha256 (content_str data)"

text \<open>
  \<open>ScrapingService.fetch_web_page\<close> from the point where the page has been fetched and
  parsed: \<open>extracted\<close> is what \<open>_extract_with_selectors\<close> or \<open>_auto_extract\<close> returned, or
  the exception the request or the parser raised, which is logged and raised again.
  \<open>fetched_at\<close> is \<open>datetime.utcnow().isoformat()\<close>.
\<close>

definition fetch_web_page ::
  "(string \<Rightarrow> string) \<Rightarrow> string + pydict \<Rightarrow> string \<Rightarrow> string \<Rightarrow> string + pydict" where
  "fetch_web_page sha256 page url fetched_at =
     (case page of
        Inl e \<Rightarrow> Inl e
      | Inr extracted \<Rightarrow>
          let e1 = dict_set extracted ''url'' (JStr url);
              e2 = dict_set e1 ''fetched_at'' (JStr fetched_at);
              e3 = dict_set e2 ''content_hash'' (JStr (generate_hash sha256 e2))
          in Inr e3)"

text \<open>
  \<open>SocialService._generate_hash\<close>, the sibling of the above:
  \<open>str({k: data.get(k) for k in ['id', 'platform'] if k in data})\<close>.
\<close>

definition social_content_str :: "pydict \<Rightarrow> string" where
  "social_content_str data =
     repr (JDict (map (\<lambda>k. (k, dict_get data k))
                      (filter (\<lambda>k. k \<in> set (map fst data)) [''id'', ''platform''])))"

definition social_generate_hash :: "(string \<Rightarrow> string) \<Rightarrow> pydict \<Rightarrow> string" where
  "social_generate_hash sha256 data = sha256 (social_content_str data)"

section \<open>Oracle service (oracle\_service.py)\<close>

record signal_data =
  sd_analysis_id :: nat
  sd_severity_level :: nat
  sd_timestamp :: nat
  sd_metrics_hash :: string

text \<open>
  What the chain does with one prepared signal: \<open>Raised\<close> when building, signing, sending
  or waiting for the receipt raises (the 120 second timeout of
  \<open>wait_for_transaction_receipt\<close> included), otherwise the receipt's \<open>status\<close> and the hex
  text of the transaction hash.
\<close>

datatype ledger_outcome = Raised string | Receipt nat string

text \<open>
  The service object: whether \<open>self.w3\<close> and \<open>self.account\<close> are set, and the two things it
  reaches outside for, \<open>self.w3.keccak(text=json.dumps(metrics, sort_keys=True)).hex()\<close>
  and the chain.
\<close>

record oracle_service =
  w3 :: bool
  account :: bool
  keccak_metrics :: "pydict \<Rightarrow> string"
  ledger :: "signal_data \<Rightarrow> ledger_outcome"

definition severity_map :: "(string \<times> nat) list" where
  "severity_map = [(''low'', 1), (''medium'', 2), (''high'', 3), (''critical'', 4)]"

definition hash_metrics :: "oracle_service \<Rightarrow> pydict \<Rightarrow> string" where
  "hash_metrics svc metrics = (if w3 svc then keccak_metrics svc metrics else [])"

text \<open>\<open>_prepare_signal\<close>; \<open>now\<close> is \<open>int(datetime.utcnow().timestamp())\<close>.\<close>

definition prepare_signal ::
  "oracle_service \<Rightarrow> nat \<Rightarrow> nat \<Rightarrow> string \<Rightarrow> pydict \<Rightarrow> signal_data" where
  "prepare_signal svc now analysis_id severity metrics =
     \<lparr>sd_analysis_id = analysis_id,
      sd_severity_level = (case map_of severity_map severity of None \<Rightarrow> 1 | Some n \<Rightarrow> n),
      sd_timestamp = now,
      sd_metrics_hash = hash_metrics svc metrics\<rparr>"

text \<open>\<open>send_signal\<close>: the transaction hash, or \<open>None\<close>; it lets no exception out.\<close>

definition send_signal ::
  "oracle_service \<Rightarrow> nat \<Rightarrow> nat \<Rightarrow> string \<Rightarrow> pydict \<Rightarrow> string option" where
  "send_signal svc now analysis_result_id severity metrics =
     (if \<not> w3 svc \<or> \<not> account svc then None
      else case ledger svc (prepare_signal svc now analysis_result_id severity metrics) of
        Raised e \<Rightarrow> None
      | Receipt st tx_hash_hex \<Rightarrow> if st = 1 then Some tx_hash_hex else None)"

text \<open>
  What the loop of \<open>monitor_and_send\<close> writes on a signal once \<open>send_signal\<close> is back:
  \<open>if tx_hash:\<close> holds for a text that is not empty.
\<close>

definition mark_signal :: "string option \<Rightarrow> nat \<Rightarrow> oracle_signal \<Rightarrow> oracle_signal" where
  "mark_signal tx_hash now signal =
     (if tx_hash \<noteq> None \<and> tx_hash \<noteq> Some []
      then signal\<lparr>sig_status := ''sent'', sig_tx_hash := tx_hash,
                  sig_tx_status := Some ''confirmed'', sig_sent_at := Some now\<rparr>
      else signal\<lparr>sig_status := ''failed''\<rparr>)"

text \<open>
  The body of the \<open>for\<close> loop of \<open>monitor_and_send\<close> over the signals the query returned.
  The result is the committed database, the ids of the signals \<open>send_signal\<close> was called
  for, and the exception that ended the pass, if one did. \<open>commit_error\<close> says for which
  signals \<open>session.commit()\<close> raises, and with what; an exception leaves the loop, since the
  \<open>try\<close> is around the whole pass, and what the session held uncommitted is gone with it.
\<close>

fun process_pending ::
  "oracle_service \<Rightarrow> (nat \<Rightarrow> string option) \<Rightarrow> nat \<Rightarrow> oracle_signal list \<Rightarrow> db \<Rightarrow> nat list
     \<Rightarrow> db \<times> nat list \<times> string option" where
  "process_pending svc commit_error now [] d sent = (d, sent, None)"
| "process_pending svc commit_error now (signal # rest) d sent =
     (case get_analysis d (sig_analysis_result_id signal) of
        None \<Rightarrow> process_pending svc commit_error now rest d sent
      | Some analysis \<Rightarrow>
          let tx_hash = send_signal svc now (ar_id analysis) (sig_severity signal)
                          (ar_metrics analysis);
              signal1 = mark_signal tx_hash now signal
          in case commit_error (sig_id signal) of
               Some e \<Rightarrow> (d, sent @ [sig_id signal], Some e)
             | None \<Rightarrow>
                 process_pending svc commit_error now rest (put_signal signal1 d)
                   (sent @ [sig_id signal]))"

definition pending_signals :: "db \<Rightarrow> oracle_signal list" where
  "pending_signals d =
     filter (\<lambda>s. sig_status s = ''pending'' \<and> sig_severity s \<in> set [''high'', ''critical''])
       (oracle_signals d)"

text \<open>One pass of the \<open>while True\<close> loop: the body of its \<open>try\<close>.\<close>

definition monitor_pass ::
  "oracle_service \<Rightarrow> (nat \<Rightarrow> string option) \<Rightarrow> nat \<Rightarrow> db \<Rightarrow> db \<times> nat list \<times> string option" where
  "monitor_pass svc commit_error now d =
     process_pending svc commit_error now (pending_signals d) d []"

text \<open>
  \<open>monitor_and_send\<close> never returns, so the model runs a given number of passes: pass \<open>k\<close>
  runs at time \<open>clock k\<close> with the commit failures \<open>faults k\<close>. The result is the database
  after the last pass and, for every pass, the signals sent for and the error logged.
\<close>

fun monitor_and_send ::
  "nat \<Rightarrow> oracle_service \<Rightarrow> (nat \<Rightarrow> nat \<Rightarrow> string option) \<Rightarrow> (nat \<Rightarrow> nat) \<Rightarrow> nat \<Rightarrow> db
     \<Rightarrow> db \<times> (nat list \<times> string option) list" where
  "monitor_and_send 0 svc faults clock k d = (d, [])"
| "monitor_and_send (Suc n) svc faults clock k d =
     (case monitor_pass svc (faults k) (clock k) d of
        (d1, sent, err) \<Rightarrow>
          (case monitor_and_send n svc faults clock (Suc k) d1 of
             (d2, log) \<Rightarrow> (d2, (sent, err) # log)))"

section \<open>Workers (backend\_workers.py)\<close>

text \<open>
  What a worker calls outside this pipeline: the two extraction helpers (run to their end
  with \<open>asyncio.run\<close>) and \<open>AnalysisService.analyze_dataset\<close>. Each returns its list, or
  \<open>Inl\<close> with the text of the exception it raised.
\<close>

record result_data =
  rd_dataset_id :: nat
  rd_category :: string
  rd_metrics :: pydict
  rd_insights :: json
  rd_recommendations :: json
  rd_quality_score :: json
  rd_severity :: "string option"


text \<open>
  The \<open>except Exception\<close> block of every worker: the job is marked failed with the text of
  the exception, and committed.
\<close>

definition fail_job :: "job \<Rightarrow> string \<Rightarrow> nat \<Rightarrow> db \<Rightarrow> db" where
  "fail_job j e now d =
     put_job (j\<lparr>job_status := ''failed'', job_error_message := Some e,
                job_completed_at := Some now\<rparr>) d"


text \<open>\<open>db.commit()\<close> of the added events.\<close>

definition commit_events :: "raw_event list \<Rightarrow> db \<Rightarrow> db" where
  "commit_events pending d = d\<lparr>raw_events := raw_events d @ pending\<rparr>"


text \<open>
  Every worker returns the database after each of its commits that went through, in
  order: what a reader of the tables can see while the job runs. \<open>t0\<close> and \<open>t1\<close> are
  \<open>datetime.utcnow()\<close> at the start and at the end. \<open>commit_raises k\<close> says that the store
  makes the \<open>k\<close>-th \<open>db.commit()\<close> of the run raise (counted from 0); a commit also raises
  when a row it flushes holds a value its \<open>JSON\<close> column does not take.

  A commit that raises is inside the \<open>try\<close>, so the \<open>except\<close> block runs. It sets the job
  failed and commits on the same session, without a \<open>rollback()\<close>; a session whose flush or
  commit has failed refuses further work until it is rolled back, so this second commit
  raises as well, nothing more is written, and the exception leaves the worker: the
  database stays as the last commit that went through left it.
\<close>

text \<open>
  The \<open>except\<close> block after an exception raised by the code itself, the session being in
  order: its commit is the \<open>k\<close>-th of the run.
\<close>

definition handle_exception ::
  "(nat \<Rightarrow> bool) \<Rightarrow> nat \<Rightarrow> job \<Rightarrow> string \<Rightarrow> nat \<Rightarrow> db \<Rightarrow> db list" where
  "handle_exception commit_raises k j e now d =
     (if commit_raises k then [] else [fail_job j e now d])"


fun add_analyses :: "result_data list \<Rightarrow> db \<Rightarrow> db" where
  "add_analyses [] d = d"
| "add_analyses (r # rs) d =
     add_analyses rs
       (d\<lparr>analysis_results := analysis_results d @
            [\<lparr>ar_id = next_id (map ar_id (analysis_results d)),
              ar_dataset_id = rd_dataset_id r, ar_category = rd_category r,
              ar_metrics = rd_metrics r, ar_insights = rd_insights r,
              ar_recommendations = rd_recommendations r,
              ar_quality_score = rd_quality_score r, ar_severity = rd_severity r\<rparr>]\<rparr>)"



text \<open>
  \<open>process_oracle_job\<close>, whose docstring calls it a placeholder: under
  \<open>if settings.ORACLE_ENABLED\<close> stands a \<open>TODO\<close> and a log line. It reads the analysis
  result and writes the job; it has no access to the chain or to the signal table.
\<close>

definition process_oracle_job ::
  "(nat \<Rightarrow> bool) \<Rightarrow> bool \<Rightarrow> nat \<Rightarrow> nat \<Rightarrow> nat \<Rightarrow> nat \<Rightarrow> db \<Rightarrow> db list" where
  "process_oracle_job commit_raises ORACLE_ENABLED t0 t1 jid analysis_result_id d =
     (case get_job d jid of
        None \<Rightarrow> []
      | Some job \<Rightarrow>
          let job1 = job\<lparr>job_status := ''running'', job_started_at := Some t0\<rparr>;
              d1 = put_job job1 d
          in if commit_raises 0 then []
             else case get_analysis d1 analysis_result_id of
               None \<Rightarrow>
                 d1 # handle_exception commit_raises 1 job1
                        (''Analysis result '' @ str_nat analysis_result_id @ '' not found'')
                        t1 d1
             | Some analysis \<Rightarrow>
                 let job2 = job1\<lparr>job_status := ''completed'', job_completed_at := Some t1,
                                 job_output_data :=
                                   JDict [(''signal_sent'', JBool ORACLE_ENABLED)]\<rparr>;
                     d2 = put_job job2 d1
                 in if commit_raises 1 then [d1] else [d1, d2])"



definition final :: "db \<Rightarrow> db list \<Rightarrow> db" where
  "final d commits = last (d # commits)"

section \<open>Sample data\<close>

text \<open>Small tables on which the theorems below are run.\<close>

definition ex_analysis :: "nat \<Rightarrow> string option \<Rightarrow> analysis_result" where
  "ex_analysis i sev =
     \<lparr>ar_id = i, ar_dataset_id = 1, ar_category = ''sentiment'',
      ar_metrics = [(''avg_sentiment'', JFloat ''0.12''), (''total'', JInt 40)],
      ar_insights = JList [], ar_recommendations = JList [],
      ar_quality_score = JFloat ''0.8'', ar_severity = sev\<rparr>"

definition ex_db :: "string option \<Rightarrow> db" where
  "ex_db sev =
     \<lparr>sources = [], raw_events = [], datasets = [], analysis_results = [ex_analysis 1 sev],
      jobs = [], oracle_signals = [], oracle_queue = []\<rparr>"

definition ex_service :: "ledger_outcome \<Rightarrow> oracle_service" where
  "ex_service out =
     \<lparr>w3 = True, account = True, keccak_metrics = (\<lambda>m. ''0xabcd''), ledger = (\<lambda>sd. out)\<rparr>"

definition ex_signal :: "nat \<Rightarrow> nat \<Rightarrow> string \<Rightarrow> oracle_signal" where
  "ex_signal i aid st =
     \<lparr>sig_id = i, sig_analysis_result_id = aid, sig_severity = ''critical'',
      sig_signal_type = Some ''alert'', sig_payload = JDict [], sig_status = st,
      sig_tx_hash = (if st = ''sent'' then Some ''0xbeef'' else None),
      sig_tx_status = (if st = ''sent'' then Some ''confirmed'' else None),
      sig_sent_at = (if st = ''sent'' then Some 5 else None)\<rparr>"

definition ex_signal_db :: "string \<Rightarrow> db" where
  "ex_signal_db st = (ex_db (Some ''critical''))\<lparr>oracle_signals := [ex_signal 1 1 st]\<rparr>"

definition ex_job :: "nat \<Rightarrow> string \<Rightarrow> string \<Rightarrow> job" where
  "ex_job i ty st =
     \<lparr>job_id = i, job_type = ty, job_status = st, job_input_data = JDict [],
      job_output_data = JNull, job_progress = 0, job_error_message = None,
      job_started_at = None, job_completed_at = None\<rparr>"

text \<open>A pending critical signal for analysis result 1, with its pending relay job.\<close>

definition ex_relay_db :: db where
  "ex_relay_db = (ex_signal_db ''pending'')\<lparr>jobs := [ex_job 1 ''oracle_signal'' ''pending'']\<rparr>"

text \<open>Two pending critical signals, for analysis results 1 and 2.\<close>

definition ex_two_signals_db :: db where
  "ex_two_signals_db =
     \<lparr>sources = [], raw_events = [], datasets = [],
      analysis_results = [ex_analysis 1 (Some ''critical''), ex_analysis 2 (Some ''critical'')],
      jobs = [], oracle_signals = [ex_signal 1 1 ''pending'', ex_signal 2 2 ''pending''],
      oracle_queue = []\<rparr>"

text \<open>A store whose commit fails while signal 1 is being handled.\<close>

definition ex_commit_error :: "nat \<Rightarrow> string option" where
  "ex_commit_error i = (if i = 1 then Some ''connection lost'' else None)"

text \<open>The same failure in the first pass of the monitor only.\<close>

definition ex_first_pass_fails :: "nat \<Rightarrow> nat \<Rightarrow> string option" where
  "ex_first_pass_fails k = (if k = 0 then ex_commit_error else (\<lambda>i. None))"










text \<open>
  What the selectors \<open>{'title': 'h1'}\<close> extract from a page whose only \<open>h1\<close> reads
  \<open>A\<close>, and a post as the social service builds one.
\<close>

definition ex_page :: pydict where
  "ex_page = [(''title'', JStr ''A'')]"

definition ex_post :: "string \<Rightarrow> pydict" where
  "ex_post created_at =
     [(''id'', JStr ''tweet_42''), (''text'', JStr ''hello''),
      (''created_at'', JStr created_at), (''platform'', JStr ''twitter'')]"

section \<open>Tables and keys\<close>

lemma fold_max_ge: "(a::nat) \<le> fold max ids a"
  by (induction ids arbitrary: a) (auto intro: order_trans [OF max.cobounded2])

lemma fold_max_mem: "x \<in> set ids \<Longrightarrow> (x::nat) \<le> fold max ids a"
proof (induction ids arbitrary: a)
  case Nil
  then show ?case by simp
next
  case (Cons y ys)
  show ?case
  proof (cases "x = y")
    case True
    have "y \<le> max y a" by simp
    also have "\<dots> \<le> fold max ys (max y a)" by (rule fold_max_ge)
    finally show ?thesis using True by simp
  next
    case False
    with Cons show ?thesis by simp
  qed
qed

lemma next_id_fresh: "x \<in> set ids \<Longrightarrow> x < next_id ids"
  by (simp add: next_id_def fold_max_mem less_Suc_eq_le)

lemma next_id_notin: "next_id ids \<notin> set ids"
  using next_id_fresh by blast

lemma find_replace_hit:
  "find (\<lambda>x. key x = i) xs = Some y \<Longrightarrow> key s = i
   \<Longrightarrow> find (\<lambda>x. key x = i) (map (\<lambda>x. if key x = i then s else x) xs) = Some s"
  by (induction xs) (auto split: if_splits)

lemma find_replace_miss:
  "key s \<noteq> i
   \<Longrightarrow> find (\<lambda>x. key x = i) (map (\<lambda>x. if key x = key s then s else x) xs)
       = find (\<lambda>x. key x = i) xs"
  by (induction xs) auto

lemma find_replace_none:
  "find (\<lambda>x. key x = i) xs = None
   \<Longrightarrow> find (\<lambda>x. key x = i) (map (\<lambda>x. if key x = key s then s else x) xs) = None"
  by (induction xs) (auto split: if_splits)

lemma get_signal_put_hit:
  "get_signal d i = Some y \<Longrightarrow> sig_id s = i \<Longrightarrow> get_signal (put_signal s d) i = Some s"
  using find_replace_hit [of sig_id i "oracle_signals d" y s]
  by (simp add: get_signal_def put_signal_def)

lemma get_signal_put_miss:
  "sig_id s \<noteq> i \<Longrightarrow> get_signal (put_signal s d) i = get_signal d i"
  using find_replace_miss [of sig_id s i "oracle_signals d"]
  by (simp add: get_signal_def put_signal_def)

lemma get_job_put_hit:
  "get_job d i = Some y \<Longrightarrow> job_id j = i \<Longrightarrow> get_job (put_job j d) i = Some j"
  using find_replace_hit [of job_id i "jobs d" y j]
  by (simp add: get_job_def put_job_def)

lemma get_job_put_miss:
  "job_id j \<noteq> i \<Longrightarrow> get_job (put_job j d) i = get_job d i"
  using find_replace_miss [of job_id j i "jobs d"]
  by (simp add: get_job_def put_job_def)

lemma find_Some_key: "find (\<lambda>x. key x = i) xs = Some y \<Longrightarrow> key y = i \<and> y \<in> set xs"
  by (induction xs) (auto split: if_splits)

lemma find_append_fresh:
  "find (\<lambda>x. key x = i) xs = None \<Longrightarrow> find (\<lambda>x. key x = i) (xs @ [y]) = (if key y = i then Some y else None)"
  by (induction xs) (auto split: if_splits)

lemma check_Inr_D:
  "check_oracle_signal en aid d = Inr (a, sev) \<Longrightarrow>
     en \<and> get_analysis d aid = Some a \<and> ar_severity a = Some sev
     \<and> sev \<in> {''high'', ''critical''} \<and> signal_for_analysis d aid = None"
  by (auto simp: check_oracle_signal_def split: if_splits option.splits)

lemma check_Inr_I:
  "en \<Longrightarrow> get_analysis d aid = Some a \<Longrightarrow> ar_severity a = Some sev
   \<Longrightarrow> sev \<in> {''high'', ''critical''} \<Longrightarrow> signal_for_analysis d aid = None
   \<Longrightarrow> check_oracle_signal en aid d = Inr (a, sev)"
  by (auto simp: check_oracle_signal_def)

lemma get_analysis_add [simp]:
  "get_analysis (snd (add_oracle_signal a sev aid d)) i = get_analysis d i"
  by (simp add: get_analysis_def add_oracle_signal_def Let_def)

lemma oracle_signals_add:
  "\<exists>s. oracle_signals (snd (add_oracle_signal a sev aid d)) = oracle_signals d @ [s]
       \<and> sig_analysis_result_id s = aid \<and> sig_status s = ''pending''
       \<and> sig_severity s = sev \<and> sig_id s = next_id (map sig_id (oracle_signals d))"
  by (simp add: add_oracle_signal_def Let_def)

lemma signal_for_analysis_None_iff:
  "signal_for_analysis d aid = None \<longleftrightarrow> aid \<notin> set (map sig_analysis_result_id (oracle_signals d))"
  by (auto simp: signal_for_analysis_def find_None_iff)



lemma signal_for_analysis_after_add:
  "signal_for_analysis (snd (add_oracle_signal a sev aid d)) aid \<noteq> None"
proof -
  obtain s where "oracle_signals (snd (add_oracle_signal a sev aid d)) = oracle_signals d @ [s]"
    and "sig_analysis_result_id s = aid"
    using oracle_signals_add [of a sev aid d] by blast
  then have "aid \<in> set (map sig_analysis_result_id
                          (oracle_signals (snd (add_oracle_signal a sev aid d))))"
    by simp
  then show ?thesis
    by (simp only: signal_for_analysis_None_iff not_not)
qed


lemma create_Inl:
  "check_oracle_signal en aid d = Inl e \<Longrightarrow> create_oracle_signal en aid d = (Inl e, d)"
  by (simp add: create_oracle_signal_def)

lemma create_Inr:
  "check_oracle_signal en aid d = Inr (a, sev) \<Longrightarrow>
     create_oracle_signal en aid d
       = (Inr (fst (add_oracle_signal a sev aid d)), snd (add_oracle_signal a sev aid d))"
  by (simp add: create_oracle_signal_def split: prod.splits)

section \<open>Severity gate\<close>

text \<open>
  C5. An analysis result whose severity is not high or critical (low, medium, any other
  text, or no severity at all) never gets a signal: the route answers with an error and
  the database, its signal table included, is what it was. Conversely, whenever the route
  adds a signal row, the result's severity is high or critical, and so is the row's.
\<close>

theorem C5_low_severity_creates_no_signal:
  "(get_analysis d aid = Some a \<and> ar_severity a \<notin> {Some ''high'', Some ''critical''}
      \<longrightarrow> (\<exists>e. fst (create_oracle_signal en aid d) = Inl e)
          \<and> snd (create_oracle_signal en aid d) = d)
   \<and> (oracle_signals (snd (create_oracle_signal en aid d)) \<noteq> oracle_signals d
      \<longrightarrow> (\<exists>a s. get_analysis d aid = Some a
            \<and> ar_severity a \<in> {Some ''high'', Some ''critical''}
            \<and> oracle_signals (snd (create_oracle_signal en aid d)) = oracle_signals d @ [s]
            \<and> sig_severity s \<in> {''high'', ''critical''}))"
proof (cases "check_oracle_signal en aid d")
  case (Inl e)
  then have "create_oracle_signal en aid d = (Inl e, d)"
    by (rule create_Inl)
  then show ?thesis by simp
next
  case (Inr r)
  obtain a' sev where r: "r = (a', sev)" by (cases r)
  from Inr r have chk: "check_oracle_signal en aid d = Inr (a', sev)" by simp
  note D = check_Inr_D [OF chk]
  have cr: "snd (create_oracle_signal en aid d) = snd (add_oracle_signal a' sev aid d)"
    by (simp add: create_Inr [OF chk])
  obtain s where s: "oracle_signals (snd (add_oracle_signal a' sev aid d)) = oracle_signals d @ [s]"
      "sig_severity s = sev"
    using oracle_signals_add [of a' sev aid d] by blast
  have first: "\<not> (get_analysis d aid = Some a
                  \<and> ar_severity a \<notin> {Some ''high'', Some ''critical''})"
    using D by auto
  have second: "\<exists>a s. get_analysis d aid = Some a
            \<and> ar_severity a \<in> {Some ''high'', Some ''critical''}
            \<and> oracle_signals (snd (create_oracle_signal en aid d)) = oracle_signals d @ [s]
            \<and> sig_severity s \<in> {''high'', ''critical''}"
    using D s cr by auto
  from first second show ?thesis by blast
qed

theorem C5_witness:
  "get_analysis (ex_db (Some ''medium'')) 1 = Some (ex_analysis 1 (Some ''medium''))
   \<and> fst (create_oracle_signal True 1 (ex_db (Some ''medium'')))
       = Inl (HTTPException 400 (SeverityNotHighEnough (Some ''medium'')))
   \<and> snd (create_oracle_signal True 1 (ex_db (Some ''medium''))) = ex_db (Some ''medium'')
   \<and> oracle_signals (snd (create_oracle_signal True 1 (ex_db (Some ''high''))))
       \<noteq> oracle_signals (ex_db (Some ''high''))
   \<and> map sig_severity (oracle_signals (snd (create_oracle_signal True 1 (ex_db (Some ''high'')))))
       = [''high'']"
proof -
  have a: "get_analysis (ex_db (Some ''medium'')) 1 = Some (ex_analysis 1 (Some ''medium''))"
    by (simp add: get_analysis_def ex_db_def ex_analysis_def)
  have b: "ar_severity (ex_analysis 1 (Some ''medium'')) \<notin> {Some ''high'', Some ''critical''}"
    by (simp add: ex_analysis_def)
  have c: "fst (create_oracle_signal True 1 (ex_db (Some ''medium'')))
             = Inl (HTTPException 400 (SeverityNotHighEnough (Some ''medium'')))"
    by (simp add: create_oracle_signal_def check_oracle_signal_def get_analysis_def
          ex_db_def ex_analysis_def)
  have d: "oracle_signals (snd (create_oracle_signal True 1 (ex_db (Some ''high''))))
             \<noteq> oracle_signals (ex_db (Some ''high''))"
    by (simp add: create_oracle_signal_def check_oracle_signal_def add_oracle_signal_def
          get_analysis_def signal_for_analysis_def ex_db_def ex_analysis_def Let_def)
  from C5_low_severity_creates_no_signal
         [of "ex_db (Some ''medium'')" 1 "ex_analysis 1 (Some ''medium'')" True] a b
  have e: "snd (create_oracle_signal True 1 (ex_db (Some ''medium''))) = ex_db (Some ''medium'')"
    by blast
  from C5_low_severity_creates_no_signal [of "ex_db (Some ''high'')" 1 _ True] d
  obtain s where
    s: "oracle_signals (snd (create_oracle_signal True 1 (ex_db (Some ''high''))))
          = oracle_signals (ex_db (Some ''high'')) @ [s]"
    by blast
  have f: "map sig_severity (oracle_signals (snd (create_oracle_signal True 1 (ex_db (Some ''high'')))))
             = [''high'']"
    by (simp add: create_oracle_signal_def check_oracle_signal_def add_oracle_signal_def
          get_analysis_def signal_for_analysis_def ex_db_def ex_analysis_def Let_def)
  from a c e d f show ?thesis by blast
qed

section \<open>Severity on the wire\<close>

text \<open>
  C10. For a severity text that is none of low, medium, high and critical (the empty text
  or an unknown word), the prepared signal still comes out, with severity level 1, the
  level of low: the lookup falls back on 1 instead of refusing the input.
\<close>

theorem C10_unknown_severity_is_level_1:
  assumes "severity \<notin> {''low'', ''medium'', ''high'', ''critical''}"
  shows "sd_severity_level (prepare_signal svc now aid severity metrics) = 1
         \<and> sd_severity_level (prepare_signal svc now aid severity metrics)
             = sd_severity_level (prepare_signal svc now aid ''low'' metrics)"
  using assms by (simp add: prepare_signal_def severity_map_def)

theorem C10_witness:
  "'''' \<notin> {''low'', ''medium'', ''high'', ''critical''}
   \<and> ''urgent'' \<notin> {''low'', ''medium'', ''high'', ''critical''}
   \<and> sd_severity_level (prepare_signal (ex_service (Raised ''x'')) 7 1 '''' []) = 1
   \<and> sd_severity_level (prepare_signal (ex_service (Raised ''x'')) 7 1 ''urgent'' []) = 1
   \<and> sd_severity_level (prepare_signal (ex_service (Raised ''x'')) 7 1 ''low'' []) = 1"
  using C10_unknown_severity_is_level_1 [of "''''" "ex_service (Raised ''x'')" 7 1 "[]"]
        C10_unknown_severity_is_level_1 [of "''urgent''" "ex_service (Raised ''x'')" 7 1 "[]"]
  by simp

section \<open>One signal per analysis result\<close>

text \<open>
  C2, as stated, fails on the code: nothing in the store refuses a second signal for the
  same analysis result. Two requests for analysis result 1 that both pass the guards
  before either has written then both write, and the table holds two signals for it.
\<close>

theorem C2_counterexample:
  "check_oracle_signal True 1 (ex_db (Some ''critical''))
     = Inr (ex_analysis 1 (Some ''critical''), ''critical'')
   \<and> map sig_analysis_result_id
        (oracle_signals
           (snd (add_oracle_signal (ex_analysis 1 (Some ''critical'')) ''critical'' 1
              (snd (add_oracle_signal (ex_analysis 1 (Some ''critical'')) ''critical'' 1
                 (ex_db (Some ''critical'')))))))
       = [1, 1]"
  by (simp add: check_oracle_signal_def add_oracle_signal_def get_analysis_def
        signal_for_analysis_def ex_db_def ex_analysis_def Let_def)

text \<open>
  C2, amended. The check for an existing signal is a query made by the route before it
  inserts; the store has no uniqueness constraint on the analysis result reference. With
  \<open>ORACLE_ENABLED\<close> on, two calls made one after the other for the same analysis result
  of severity high or critical, which has no signal yet, create exactly one signal row:
  the first call creates it, the second is refused with 400 because a signal already
  exists and writes nothing. A table with at most one signal per analysis result keeps
  that property under such a call.
\<close>

theorem C2_sequential_creation_is_idempotent:
  assumes "get_analysis d aid = Some a"
      and "ar_severity a \<in> {Some ''high'', Some ''critical''}"
      and "signal_for_analysis d aid = None"
  shows "(\<exists>r. fst (create_oracle_signal True aid d) = Inr r)
         \<and> create_oracle_signal True aid (snd (create_oracle_signal True aid d))
             = (Inl (HTTPException 400 (SignalAlreadyExists aid)),
                snd (create_oracle_signal True aid d))
         \<and> length (filter (\<lambda>s. sig_analysis_result_id s = aid)
                     (oracle_signals (snd (create_oracle_signal True aid d)))) = 1
         \<and> (distinct (map sig_analysis_result_id (oracle_signals d))
              \<longrightarrow> distinct (map sig_analysis_result_id
                             (oracle_signals (snd (create_oracle_signal True aid d)))))"
proof -
  from assms(2) obtain sev where sev: "ar_severity a = Some sev" "sev \<in> {''high'', ''critical''}"
    by auto
  have chk: "check_oracle_signal True aid d = Inr (a, sev)"
    using check_Inr_I [OF _ assms(1) sev assms(3)] by simp
  define d1 where "d1 = snd (add_oracle_signal a sev aid d)"
  have cr: "create_oracle_signal True aid d = (Inr (fst (add_oracle_signal a sev aid d)), d1)"
    by (simp add: create_oracle_signal_def chk d1_def split: prod.splits)
  obtain s where s: "oracle_signals d1 = oracle_signals d @ [s]" "sig_analysis_result_id s = aid"
    using oracle_signals_add [of a sev aid d] by (auto simp: d1_def)
  have notin: "aid \<notin> set (map sig_analysis_result_id (oracle_signals d))"
    using assms(3) by (simp add: signal_for_analysis_None_iff)
  have ex: "signal_for_analysis d1 aid \<noteq> None"
    by (simp add: d1_def signal_for_analysis_after_add)
  have ga: "get_analysis d1 aid = Some a"
    by (simp add: d1_def assms(1))
  have chk2: "check_oracle_signal True aid d1 = Inl (HTTPException 400 (SignalAlreadyExists aid))"
    using ex ga sev by (auto simp: check_oracle_signal_def split: option.splits)
  have second: "create_oracle_signal True aid d1
                  = (Inl (HTTPException 400 (SignalAlreadyExists aid)), d1)"
    by (simp add: create_oracle_signal_def chk2)
  have filt: "filter (\<lambda>s. sig_analysis_result_id s = aid) (oracle_signals d) = []"
    using notin by (auto simp: filter_empty_conv)
  have one: "length (filter (\<lambda>s. sig_analysis_result_id s = aid) (oracle_signals d1)) = 1"
    by (simp add: s filt)
  have dist: "distinct (map sig_analysis_result_id (oracle_signals d))
              \<longrightarrow> distinct (map sig_analysis_result_id (oracle_signals d1))"
    using notin by (simp add: s)
  show ?thesis using cr second one dist by simp
qed

theorem C2_witness:
  "get_analysis (ex_db (Some ''critical'')) 1 = Some (ex_analysis 1 (Some ''critical''))
   \<and> ar_severity (ex_analysis 1 (Some ''critical'')) \<in> {Some ''high'', Some ''critical''}
   \<and> signal_for_analysis (ex_db (Some ''critical'')) 1 = None
   \<and> create_oracle_signal True 1 (snd (create_oracle_signal True 1 (ex_db (Some ''critical''))))
       = (Inl (HTTPException 400 (SignalAlreadyExists 1)),
          snd (create_oracle_signal True 1 (ex_db (Some ''critical''))))
   \<and> length (filter (\<lambda>s. sig_analysis_result_id s = 1)
               (oracle_signals (snd (create_oracle_signal True 1 (ex_db (Some ''critical'')))))) = 1"
proof -
  have a: "get_analysis (ex_db (Some ''critical'')) 1 = Some (ex_analysis 1 (Some ''critical''))"
    by (simp add: get_analysis_def ex_db_def ex_analysis_def)
  have b: "ar_severity (ex_analysis 1 (Some ''critical'')) \<in> {Some ''high'', Some ''critical''}"
    by (simp add: ex_analysis_def)
  have c: "signal_for_analysis (ex_db (Some ''critical'')) 1 = None"
    by (simp add: signal_for_analysis_def ex_db_def)
  from C2_sequential_creation_is_idempotent [OF a b c] a b c show ?thesis
    by blast
qed

section \<open>Retrying a signal\<close>

text \<open>
  C6, as stated, fails on the code: with \<open>ORACLE_ENABLED\<close> off (the default of the
  settings) the retry of a failed signal is refused with 503 and nothing is written.
\<close>

theorem C6_counterexample:
  "sig_status (ex_signal 1 1 ''failed'') = ''failed''
   \<and> get_signal (ex_signal_db ''failed'') 1 = Some (ex_signal 1 1 ''failed'')
   \<and> retry_oracle_signal False 1 (ex_signal_db ''failed'')
       = (Inl (HTTPException 503 OracleNotEnabled), ex_signal_db ''failed'')"
  by (simp add: retry_oracle_signal_def get_signal_def ex_signal_db_def ex_signal_def)

lemma retry_rejected:
  "\<not> (en \<and> (\<exists>s. get_signal d sid = Some s \<and> sig_status s \<in> {''failed'', ''pending''}))
   \<Longrightarrow> (\<exists>e. fst (retry_oracle_signal en sid d) = Inl e) \<and> snd (retry_oracle_signal en sid d) = d"
  by (cases "get_signal d sid") (auto simp: retry_oracle_signal_def)

lemma retry_accepted:
  assumes "get_signal d sid = Some s" and "sig_status s \<in> {''failed'', ''pending''}"
  defines "s1 \<equiv> s\<lparr>sig_status := ''pending'', sig_tx_hash := None, sig_tx_status := None,
                     sig_sent_at := None\<rparr>"
  defines "j \<equiv> new_oracle_job (put_signal s1 d) sid (sig_analysis_result_id s)"
  shows "retry_oracle_signal True sid d
           = (Inr \<lparr>resp_signal_id = sid, resp_job_id = job_id j, resp_status = ''pending''\<rparr>,
              (put_signal s1 d)\<lparr>jobs := jobs d @ [j],
                 oracle_queue := oracle_queue d @ [(job_id j, sig_analysis_result_id s)]\<rparr>)"
proof -
  have sid: "sig_id s = sid"
    using assms(1) find_Some_key [of sig_id sid "oracle_signals d" s]
    by (simp add: get_signal_def)
  have ok: "\<not> sig_status s \<notin> set [''failed'', ''pending'']"
    using assms(2) by auto
  have jobs: "jobs (put_signal s1 d) = jobs d" and q: "oracle_queue (put_signal s1 d) = oracle_queue d"
    by (simp_all add: put_signal_def)
  have s1f: "sig_id s1 = sid" "sig_analysis_result_id s1 = sig_analysis_result_id s"
    by (simp_all add: s1_def sid)
  show ?thesis
    unfolding retry_oracle_signal_def
    using assms(1) ok
    by (simp add: Let_def s1_def [symmetric] s1f j_def [symmetric] jobs q
          del: set_simps List.set_simps)
qed


lemma get_signal_only_signals:
  "oracle_signals d' = oracle_signals d \<Longrightarrow> get_signal d' i = get_signal d i"
  by (simp add: get_signal_def)

text \<open>
  C6, amended. With \<open>ORACLE_ENABLED\<close> on, the retry of an existing signal is accepted
  exactly when its status is failed or pending; with the setting off it is always refused.
  A refused retry writes nothing. An accepted retry leaves the signal pending with
  \<open>tx_hash\<close>, \<open>tx_status\<close> and \<open>sent_at\<close> cleared, adds one job with a new id, of type
  \<open>oracle_signal\<close>, pending and not started, and puts exactly that job on the queue.
\<close>

theorem C6_retry_when_enabled:
  assumes "get_signal d sid = Some s"
  shows "((\<exists>r. fst (retry_oracle_signal en sid d) = Inr r)
            \<longleftrightarrow> en \<and> sig_status s \<in> {''failed'', ''pending''})
         \<and> (\<not> (en \<and> sig_status s \<in> {''failed'', ''pending''})
              \<longrightarrow> snd (retry_oracle_signal en sid d) = d)
         \<and> (en \<and> sig_status s \<in> {''failed'', ''pending''}
              \<longrightarrow> (\<exists>j. get_signal (snd (retry_oracle_signal en sid d)) sid
                          = Some (s\<lparr>sig_status := ''pending'', sig_tx_hash := None,
                                     sig_tx_status := None, sig_sent_at := None\<rparr>)
                     \<and> jobs (snd (retry_oracle_signal en sid d)) = jobs d @ [j]
                     \<and> job_id j \<notin> set (map job_id (jobs d))
                     \<and> job_type j = ''oracle_signal'' \<and> job_status j = ''pending''
                     \<and> job_started_at j = None \<and> job_output_data j = JNull
                     \<and> oracle_queue (snd (retry_oracle_signal en sid d))
                          = oracle_queue d @ [(job_id j, sig_analysis_result_id s)]))"
proof (cases "en \<and> sig_status s \<in> {''failed'', ''pending''}")
  case False
  then have "\<not> (en \<and> (\<exists>s. get_signal d sid = Some s \<and> sig_status s \<in> {''failed'', ''pending''}))"
    using assms by auto
  from retry_rejected [OF this] False show ?thesis by auto
next
  case True
  define s1 where "s1 = s\<lparr>sig_status := ''pending'', sig_tx_hash := None,
                           sig_tx_status := None, sig_sent_at := None\<rparr>"
  define j where "j = new_oracle_job (put_signal s1 d) sid (sig_analysis_result_id s)"
  define d' where "d' = (put_signal s1 d)\<lparr>jobs := jobs d @ [j],
                     oracle_queue := oracle_queue d @ [(job_id j, sig_analysis_result_id s)]\<rparr>"
  from True have en: en and st: "sig_status s \<in> {''failed'', ''pending''}" by auto
  have r: "retry_oracle_signal en sid d
             = (Inr \<lparr>resp_signal_id = sid, resp_job_id = job_id j, resp_status = ''pending''\<rparr>, d')"
    using retry_accepted [OF assms st] en by (simp add: s1_def j_def d'_def)
  have sid: "sig_id s1 = sid"
    using assms find_Some_key [of sig_id sid "oracle_signals d" s]
    by (simp add: get_signal_def s1_def)
  have "get_signal d' sid = get_signal (put_signal s1 d) sid"
    by (rule get_signal_only_signals) (simp add: d'_def)
  also have "\<dots> = Some s1"
    using get_signal_put_hit [OF assms sid] .
  finally have g: "get_signal d' sid = Some s1" .
  have jid: "job_id j = next_id (map job_id (jobs d))"
    by (simp add: j_def new_oracle_job_def put_signal_def)
  have fresh: "job_id j \<notin> set (map job_id (jobs d))"
    unfolding jid by (rule next_id_notin)
  have jf: "job_type j = ''oracle_signal''" "job_status j = ''pending''"
      "job_started_at j = None" "job_output_data j = JNull"
    by (simp_all add: j_def new_oracle_job_def)
  have dj: "jobs d' = jobs d @ [j]"
    and dq: "oracle_queue d' = oracle_queue d @ [(job_id j, sig_analysis_result_id s)]"
    by (simp_all add: d'_def)
  have third: "\<exists>j. get_signal (snd (retry_oracle_signal en sid d)) sid
                          = Some (s\<lparr>sig_status := ''pending'', sig_tx_hash := None,
                                     sig_tx_status := None, sig_sent_at := None\<rparr>)
                     \<and> jobs (snd (retry_oracle_signal en sid d)) = jobs d @ [j]
                     \<and> job_id j \<notin> set (map job_id (jobs d))
                     \<and> job_type j = ''oracle_signal'' \<and> job_status j = ''pending''
                     \<and> job_started_at j = None \<and> job_output_data j = JNull
                     \<and> oracle_queue (snd (retry_oracle_signal en sid d))
                          = oracle_queue d @ [(job_id j, sig_analysis_result_id s)]"
    using g fresh jf dj dq unfolding r s1_def by (intro exI [of _ j]) simp
  have first: "\<exists>r. fst (retry_oracle_signal en sid d) = Inr r"
    by (simp add: r)
  from first third True show ?thesis by blast
qed

theorem C6_witness:
  "get_signal (ex_signal_db ''failed'') 1 = Some (ex_signal 1 1 ''failed'')
   \<and> sig_status (ex_signal 1 1 ''failed'') \<in> {''failed'', ''pending''}
   \<and> (\<exists>r. fst (retry_oracle_signal True 1 (ex_signal_db ''failed'')) = Inr r)
   \<and> map_option sig_tx_hash (get_signal (snd (retry_oracle_signal True 1 (ex_signal_db ''failed''))) 1)
       = Some None
   \<and> map_option sig_status (get_signal (snd (retry_oracle_signal True 1 (ex_signal_db ''failed''))) 1)
       = Some ''pending''
   \<and> length (jobs (snd (retry_oracle_signal True 1 (ex_signal_db ''failed'')))) = 1
   \<and> get_signal (ex_signal_db ''sent'') 1 = Some (ex_signal 1 1 ''sent'')
   \<and> snd (retry_oracle_signal True 1 (ex_signal_db ''sent'')) = ex_signal_db ''sent''"
proof -
  have a: "get_signal (ex_signal_db ''failed'') 1 = Some (ex_signal 1 1 ''failed'')"
    by (simp add: get_signal_def ex_signal_db_def ex_signal_def)
  have b: "sig_status (ex_signal 1 1 ''failed'') \<in> {''failed'', ''pending''}"
    by (simp add: ex_signal_def)
  have c: "get_signal (ex_signal_db ''sent'') 1 = Some (ex_signal 1 1 ''sent'')"
    by (simp add: get_signal_def ex_signal_db_def ex_signal_def)
  have d: "\<not> (True \<and> sig_status (ex_signal 1 1 ''sent'') \<in> {''failed'', ''pending''})"
    by (simp add: ex_signal_def)
  have e: "jobs (ex_signal_db ''failed'') = []"
    by (simp add: ex_signal_db_def ex_db_def)
  from C6_retry_when_enabled [OF a, of True] b
  obtain j where
    "\<exists>r. fst (retry_oracle_signal True 1 (ex_signal_db ''failed'')) = Inr r"
    "get_signal (snd (retry_oracle_signal True 1 (ex_signal_db ''failed''))) 1
       = Some ((ex_signal 1 1 ''failed'')\<lparr>sig_status := ''pending'', sig_tx_hash := None,
                                          sig_tx_status := None, sig_sent_at := None\<rparr>)"
    "jobs (snd (retry_oracle_signal True 1 (ex_signal_db ''failed'')))
       = jobs (ex_signal_db ''failed'') @ [j]"
    by blast
  moreover from C6_retry_when_enabled [OF c, of True] d
  have "snd (retry_oracle_signal True 1 (ex_signal_db ''sent'')) = ex_signal_db ''sent''"
    by blast
  ultimately show ?thesis using a b c e by simp
qed

section \<open>The monitor's pass\<close>

lemma put_signal_other_tables [simp]:
  "analysis_results (put_signal s d) = analysis_results d"
  "jobs (put_signal s d) = jobs d"
  "oracle_queue (put_signal s d) = oracle_queue d"
  by (simp_all add: put_signal_def)

lemma get_analysis_put_signal [simp]: "get_analysis (put_signal s d) i = get_analysis d i"
  by (simp add: get_analysis_def)

lemma sig_id_mark_signal [simp]: "sig_id (mark_signal tx now s) = sig_id s"
  by (simp add: mark_signal_def)

lemma process_pending_step:
  "process_pending svc ce now (x # rest) d sent =
     (case get_analysis d (sig_analysis_result_id x) of
        None \<Rightarrow> process_pending svc ce now rest d sent
      | Some a \<Rightarrow>
          (case ce (sig_id x) of
             Some e \<Rightarrow> (d, sent @ [sig_id x], Some e)
           | None \<Rightarrow>
               process_pending svc ce now rest
                 (put_signal (mark_signal (send_signal svc now (ar_id a) (sig_severity x)
                                            (ar_metrics a)) now x) d)
                 (sent @ [sig_id x])))"
  by (simp add: Let_def split: option.splits)

lemma process_pending_tables:
  "analysis_results (fst (process_pending svc ce now sigs d sent)) = analysis_results d
   \<and> jobs (fst (process_pending svc ce now sigs d sent)) = jobs d"
proof (induction sigs arbitrary: d sent)
  case Nil
  show ?case by simp
next
  case (Cons x rest)
  show ?case
    unfolding process_pending_step
    by (simp add: Cons.IH split: option.splits)
qed

lemma process_pending_untouched:
  "i \<notin> sig_id ` set sigs
   \<Longrightarrow> get_signal (fst (process_pending svc ce now sigs d sent)) i = get_signal d i"
proof (induction sigs arbitrary: d sent)
  case Nil
  show ?case by simp
next
  case (Cons x rest)
  from Cons.prems have ne: "sig_id x \<noteq> i" and rest: "i \<notin> sig_id ` set rest"
    by auto
  show ?case
    unfolding process_pending_step
    by (simp add: Cons.IH [OF rest] get_signal_put_miss ne split: option.splits)
qed

lemma process_pending_no_errors:
  "\<forall>x\<in>set sigs. ce (sig_id x) = None
   \<Longrightarrow> snd (process_pending svc ce now sigs d sent)
       = (sent @ map sig_id (filter (\<lambda>x. get_analysis d (sig_analysis_result_id x) \<noteq> None) sigs),
          None)"
proof (induction sigs arbitrary: d sent)
  case Nil
  show ?case by simp
next
  case (Cons x rest)
  from Cons.prems have x: "ce (sig_id x) = None" and rest: "\<forall>y\<in>set rest. ce (sig_id y) = None"
    by auto
  show ?case
    unfolding process_pending_step
    by (simp add: Cons.IH [OF rest] x split: option.splits)
qed

lemma process_pending_marks:
  assumes "\<forall>x\<in>set sigs. ce (sig_id x) = None"
      and "distinct (map sig_id sigs)"
      and "s \<in> set sigs"
      and "get_analysis d (sig_analysis_result_id s) = Some a"
      and "get_signal d (sig_id s) \<noteq> None"
  shows "get_signal (fst (process_pending svc ce now sigs d sent)) (sig_id s)
           = Some (mark_signal (send_signal svc now (ar_id a) (sig_severity s) (ar_metrics a))
                     now s)"
  using assms
proof (induction sigs arbitrary: d sent)
  case Nil
  then show ?case by simp
next
  case (Cons x rest)
  from Cons.prems(1) have x: "ce (sig_id x) = None" and rest: "\<forall>y\<in>set rest. ce (sig_id y) = None"
    by auto
  from Cons.prems(2) have nx: "sig_id x \<notin> sig_id ` set rest" and dr: "distinct (map sig_id rest)"
    by auto
  show ?case
  proof (cases "x = s")
    case True
    let ?s1 = "mark_signal (send_signal svc now (ar_id a) (sig_severity s) (ar_metrics a)) now s"
    obtain y where y: "get_signal d (sig_id s) = Some y"
      using Cons.prems(5) by auto
    have hit: "get_signal (put_signal ?s1 d) (sig_id s) = Some ?s1"
      by (rule get_signal_put_hit [OF y]) simp
    have "get_signal (fst (process_pending svc ce now rest (put_signal ?s1 d)
                             (sent @ [sig_id s]))) (sig_id s)
            = get_signal (put_signal ?s1 d) (sig_id s)"
      using nx True by (intro process_pending_untouched) simp
    with hit show ?thesis
      unfolding process_pending_step using True x Cons.prems(4) by simp
  next
    case False
    with Cons.prems(3) have sr: "s \<in> set rest" by simp
    with nx have ne: "sig_id x \<noteq> sig_id s" by force
    show ?thesis
    proof (cases "get_analysis d (sig_analysis_result_id x)")
      case None
      then show ?thesis
        unfolding process_pending_step
        using Cons.IH [OF rest dr sr Cons.prems(4) Cons.prems(5)] by simp
    next
      case (Some b)
      let ?x1 = "mark_signal (send_signal svc now (ar_id b) (sig_severity x) (ar_metrics b)) now x"
      have g: "get_signal (put_signal ?x1 d) (sig_id s) \<noteq> None"
        using Cons.prems(5) ne by (simp add: get_signal_put_miss)
      have ga: "get_analysis (put_signal ?x1 d) (sig_analysis_result_id s) = Some a"
        using Cons.prems(4) by simp
      show ?thesis
        unfolding process_pending_step
        using Cons.IH [OF rest dr sr ga g] Some x by simp
    qed
  qed
qed

lemma process_pending_abort:
  assumes "\<forall>x\<in>set pre. ce (sig_id x) = None"
      and "get_analysis d (sig_analysis_result_id s) = Some a"
      and "ce (sig_id s) = Some e"
  shows "process_pending svc ce now (pre @ s # post) d sent
           = (fst (process_pending svc ce now pre d sent),
              sent @ map sig_id (filter (\<lambda>x. get_analysis d (sig_analysis_result_id x) \<noteq> None) pre)
                @ [sig_id s],
              Some e)"
  using assms
proof (induction pre arbitrary: d sent)
  case Nil
  then show ?case by (simp add: process_pending_step)
next
  case (Cons x rest)
  from Cons.prems(1) have x: "ce (sig_id x) = None" and rest: "\<forall>y\<in>set rest. ce (sig_id y) = None"
    by auto
  show ?case
  proof (cases "get_analysis d (sig_analysis_result_id x)")
    case None
    then show ?thesis
      using Cons.IH [OF rest Cons.prems(2) Cons.prems(3)]
      by (simp add: process_pending_step)
  next
    case (Some b)
    let ?x1 = "mark_signal (send_signal svc now (ar_id b) (sig_severity x) (ar_metrics b)) now x"
    have ga: "get_analysis (put_signal ?x1 d) (sig_analysis_result_id s) = Some a"
      using Cons.prems(2) by simp
    show ?thesis
      using Cons.IH [OF rest ga Cons.prems(3)] Some x
      by (simp add: process_pending_step)
  qed
qed

lemma pending_signals_subset: "s \<in> set (pending_signals d) \<Longrightarrow> s \<in> set (oracle_signals d)"
  by (simp add: pending_signals_def)

lemma pending_signals_distinct:
  "distinct (map sig_id (oracle_signals d)) \<Longrightarrow> distinct (map sig_id (pending_signals d))"
  by (simp add: pending_signals_def distinct_map_filter)

lemma get_signal_member: "s \<in> set (oracle_signals d) \<Longrightarrow> get_signal d (sig_id s) \<noteq> None"
  by (auto simp: get_signal_def find_None_iff)

lemma monitor_and_send_length:
  "length (snd (monitor_and_send n svc faults clock k d)) = n"
proof (induction n arbitrary: k d)
  case 0
  show ?case by simp
next
  case (Suc n)
  obtain d1 sent err where p: "monitor_pass svc (faults k) (clock k) d = (d1, sent, err)"
    by (cases "monitor_pass svc (faults k) (clock k) d") auto
  obtain d2 log where r: "monitor_and_send n svc faults clock (Suc k) d1 = (d2, log)"
    by (cases "monitor_and_send n svc faults clock (Suc k) d1") auto
  from Suc.IH [of "Suc k" d1] r have "length log = n" by simp
  then show ?case by (simp add: p r)
qed

section \<open>Jobs under a worker\<close>

lemma get_job_key: "get_job d jid = Some j \<Longrightarrow> job_id j = jid"
  using find_Some_key [of job_id jid "jobs d" j] by (simp add: get_job_def)

lemma put_job_other_tables [simp]:
  "analysis_results (put_job j d) = analysis_results d"
  "oracle_signals (put_job j d) = oracle_signals d"
  "raw_events (put_job j d) = raw_events d"
  "sources (put_job j d) = sources d"
  "datasets (put_job j d) = datasets d"
  "oracle_queue (put_job j d) = oracle_queue d"
  by (simp_all add: put_job_def)

lemma get_analysis_put_job [simp]: "get_analysis (put_job j d) i = get_analysis d i"
  by (simp add: get_analysis_def)

lemma get_source_put_job [simp]: "get_source (put_job j d) i = get_source d i"
  by (simp add: get_source_def)

lemma get_dataset_put_job [simp]: "get_dataset (put_job j d) i = get_dataset d i"
  by (simp add: get_dataset_def)

lemma status_of_put_job:
  "get_job d jid \<noteq> None \<Longrightarrow> job_id j = jid \<Longrightarrow> get_job (put_job j d) jid = Some j"
  using get_job_put_hit [of d jid _ j] by auto

lemma process_oracle_job_found:
  assumes "get_job d jid = Some j" and "\<not> commit_raises 0" and "\<not> commit_raises 1"
  shows "process_oracle_job commit_raises en t0 t1 jid aid d =
           (let job1 = j\<lparr>job_status := ''running'', job_started_at := Some t0\<rparr>;
                d1 = put_job job1 d
            in case get_analysis d aid of
                 None \<Rightarrow>
                   [d1, fail_job job1 (''Analysis result '' @ str_nat aid @ '' not found'') t1 d1]
               | Some a \<Rightarrow>
                   [d1, put_job (job1\<lparr>job_status := ''completed'', job_completed_at := Some t1,
                                       job_output_data := JDict [(''signal_sent'', JBool en)]\<rparr>)
                          d1])"
  using assms
  by (simp add: process_oracle_job_def handle_exception_def Let_def split: option.splits)

lemma process_oracle_job_signals:
  "oracle_signals (final d (process_oracle_job commit_raises en t0 t1 jid aid d))
     = oracle_signals d"
  by (simp add: process_oracle_job_def handle_exception_def final_def fail_job_def Let_def
        split: option.splits)

lemma process_oracle_job_completed:
  assumes "get_job d jid = Some j" and "get_analysis d aid = Some a"
      and "\<not> commit_raises 0" and "\<not> commit_raises 1"
  shows "\<exists>j'. get_job (final d (process_oracle_job commit_raises en t0 t1 jid aid d)) jid = Some j'
              \<and> job_status j' = ''completed''
              \<and> job_output_data j' = JDict [(''signal_sent'', JBool en)]
              \<and> job_error_message j' = job_error_message j
              \<and> job_completed_at j' = Some t1"
proof -
  have k: "job_id j = jid" using assms(1) by (rule get_job_key)
  define job1 where "job1 = j\<lparr>job_status := ''running'', job_started_at := Some t0\<rparr>"
  define job2 where "job2 = job1\<lparr>job_status := ''completed'', job_completed_at := Some t1,
                                 job_output_data := JDict [(''signal_sent'', JBool en)]\<rparr>"
  have tr: "process_oracle_job commit_raises en t0 t1 jid aid d
              = [put_job job1 d, put_job job2 (put_job job1 d)]"
    by (simp add: process_oracle_job_found [OF assms(1) assms(3) assms(4)] assms(2) Let_def
          job1_def job2_def)
  have g1: "get_job (put_job job1 d) jid \<noteq> None"
    using status_of_put_job [of d jid job1] assms(1) k by (simp add: job1_def)
  have g2: "get_job (put_job job2 (put_job job1 d)) jid = Some job2"
    using status_of_put_job [OF g1, of job2] k by (simp add: job1_def job2_def)
  show ?thesis
    using g2 by (simp add: tr final_def) (simp add: job1_def job2_def)
qed

lemma process_oracle_job_failed:
  assumes "get_job d jid = Some j" and "get_analysis d aid = None"
      and "\<not> commit_raises 0" and "\<not> commit_raises 1"
  shows "\<exists>j'. get_job (final d (process_oracle_job commit_raises en t0 t1 jid aid d)) jid = Some j'
              \<and> job_status j' = ''failed''
              \<and> job_error_message j' = Some (''Analysis result '' @ str_nat aid @ '' not found'')
              \<and> job_completed_at j' = Some t1"
proof -
  have k: "job_id j = jid" using assms(1) by (rule get_job_key)
  define job1 where "job1 = j\<lparr>job_status := ''running'', job_started_at := Some t0\<rparr>"
  define job2 where "job2 = job1\<lparr>job_status := ''failed'',
        job_error_message := Some (''Analysis result '' @ str_nat aid @ '' not found''),
        job_completed_at := Some t1\<rparr>"
  have tr: "process_oracle_job commit_raises en t0 t1 jid aid d
              = [put_job job1 d, put_job job2 (put_job job1 d)]"
    by (simp add: process_oracle_job_found [OF assms(1) assms(3) assms(4)] assms(2) Let_def
          job1_def job2_def fail_job_def)
  have g1: "get_job (put_job job1 d) jid \<noteq> None"
    using status_of_put_job [of d jid job1] assms(1) k by (simp add: job1_def)
  have g2: "get_job (put_job job2 (put_job job1 d)) jid = Some job2"
    using status_of_put_job [OF g1, of job2] k by (simp add: job1_def job2_def)
  show ?thesis
    using g2 by (simp add: tr final_def) (simp add: job2_def)
qed

lemma monitor_pass_marks:
  assumes "distinct (map sig_id (oracle_signals d))"
      and "s \<in> set (pending_signals d)"
      and "get_analysis d (sig_analysis_result_id s) = Some a"
      and "\<forall>x\<in>set (pending_signals d). commit_error (sig_id x) = None"
  shows "get_signal (fst (monitor_pass svc commit_error now d)) (sig_id s)
           = Some (mark_signal (send_signal svc now (ar_id a) (sig_severity s) (ar_metrics a))
                     now s)"
  unfolding monitor_pass_def
  by (rule process_pending_marks [OF assms(4) pending_signals_distinct [OF assms(1)] assms(2)
        assms(3) get_signal_member [OF pending_signals_subset [OF assms(2)]]])

lemma send_signal_success:
  "w3 svc \<Longrightarrow> account svc
   \<Longrightarrow> ledger svc (prepare_signal svc now aid sev m) = Receipt 1 h
   \<Longrightarrow> send_signal svc now aid sev m = Some h"
  by (simp add: send_signal_def)

lemma send_signal_failure:
  "\<not> w3 svc \<or> \<not> account svc
     \<or> (\<exists>e. ledger svc (prepare_signal svc now aid sev m) = Raised e)
     \<or> (\<exists>st h. ledger svc (prepare_signal svc now aid sev m) = Receipt st h \<and> st \<noteq> 1)
   \<Longrightarrow> send_signal svc now aid sev m = None"
  by (auto simp: send_signal_def)

section \<open>Relaying a signal\<close>

text \<open>
  C3, as stated, fails on the code. The relay job and the ledger never meet: the worker
  \<open>process_oracle_job\<close> completes its job as soon as the analysis result is found and
  leaves the signal pending, and the monitor, which does talk to the ledger, writes the
  signal only. Here the ledger times out: the signal ends failed, its job ends completed
  with no error message.
\<close>

theorem C3_counterexample:
  "map_option sig_status
     (get_signal
        (final ex_relay_db (process_oracle_job (\<lambda>k. False) True 10 11 1 1 ex_relay_db)) 1)
     = Some ''pending''
   \<and> map_option sig_status
       (get_signal
          (fst (monitor_pass (ex_service (Raised ''timeout'')) (\<lambda>i. None) 20
                  (final ex_relay_db
                     (process_oracle_job (\<lambda>k. False) True 10 11 1 1 ex_relay_db)))) 1)
       = Some ''failed''
   \<and> map_option job_status
       (get_job
          (fst (monitor_pass (ex_service (Raised ''timeout'')) (\<lambda>i. None) 20
                  (final ex_relay_db
                     (process_oracle_job (\<lambda>k. False) True 10 11 1 1 ex_relay_db)))) 1)
       = Some ''completed''
   \<and> map_option job_error_message
       (get_job
          (fst (monitor_pass (ex_service (Raised ''timeout'')) (\<lambda>i. None) 20
                  (final ex_relay_db
                     (process_oracle_job (\<lambda>k. False) True 10 11 1 1 ex_relay_db)))) 1)
       = Some None"
  by (simp add: process_oracle_job_def handle_exception_def monitor_pass_def pending_signals_def
        final_def get_job_def get_signal_def get_analysis_def put_job_def put_signal_def
        mark_signal_def send_signal_def ex_relay_db_def ex_signal_db_def ex_db_def
        ex_signal_def ex_job_def ex_analysis_def ex_service_def Let_def)

text \<open>
  C3, amended. When a pass of the monitor handles a pending signal of severity high or
  critical whose analysis result exists, and the commits of the pass succeed: if the
  connection and the account are set and the ledger returns a receipt of status 1, the
  signal becomes sent with the transaction hash, \<open>tx_status\<close> confirmed and \<open>sent_at\<close> set;
  if the connection or the account is missing, or assembling, signing, submitting or
  awaiting the receipt raises (a timeout included), or the receipt has another status, the
  signal becomes failed. The monitor writes no job. The relay job is decided without the
  ledger: \<open>process_oracle_job\<close>, its two commits going through, leaves the signal table
  as it is, completes the job when the analysis result exists, and fails it with the error
  text when it does not.
\<close>

theorem C3_relay_outcomes:
  assumes "distinct (map sig_id (oracle_signals d))"
      and "s \<in> set (pending_signals d)"
      and "get_analysis d (sig_analysis_result_id s) = Some a"
      and "\<forall>x\<in>set (pending_signals d). commit_error (sig_id x) = None"
      and "get_job d jid = Some j"
      and "\<not> commit_raises 0 \<and> \<not> commit_raises 1"
  shows "(\<forall>h. w3 svc \<and> account svc \<and> h \<noteq> []
              \<and> ledger svc (prepare_signal svc now (ar_id a) (sig_severity s) (ar_metrics a))
                  = Receipt 1 h
            \<longrightarrow> get_signal (fst (monitor_pass svc commit_error now d)) (sig_id s)
                  = Some (s\<lparr>sig_status := ''sent'', sig_tx_hash := Some h,
                             sig_tx_status := Some ''confirmed'', sig_sent_at := Some now\<rparr>))
         \<and> (\<not> w3 svc \<or> \<not> account svc
              \<or> (\<exists>e. ledger svc (prepare_signal svc now (ar_id a) (sig_severity s) (ar_metrics a))
                        = Raised e)
              \<or> (\<exists>st h. ledger svc (prepare_signal svc now (ar_id a) (sig_severity s)
                                       (ar_metrics a)) = Receipt st h \<and> st \<noteq> 1)
            \<longrightarrow> get_signal (fst (monitor_pass svc commit_error now d)) (sig_id s)
                  = Some (s\<lparr>sig_status := ''failed''\<rparr>))
         \<and> jobs (fst (monitor_pass svc commit_error now d)) = jobs d
         \<and> oracle_signals
               (final d (process_oracle_job commit_raises en t0 t1 jid (sig_analysis_result_id s) d))
             = oracle_signals d
         \<and> map_option job_status
             (get_job (final d (process_oracle_job commit_raises en t0 t1 jid
                                  (sig_analysis_result_id s) d)) jid)
             = Some ''completed''
         \<and> (get_analysis d aid = None
            \<longrightarrow> map_option job_status
                  (get_job (final d (process_oracle_job commit_raises en t0 t1 jid aid d)) jid)
                  = Some ''failed''
                \<and> map_option job_error_message
                    (get_job (final d (process_oracle_job commit_raises en t0 t1 jid aid d)) jid)
                    = Some (Some (''Analysis result '' @ str_nat aid @ '' not found'')))"
proof -
  note m = monitor_pass_marks [OF assms(1-4), of svc now]
  have sent: "\<forall>h. w3 svc \<and> account svc \<and> h \<noteq> []
              \<and> ledger svc (prepare_signal svc now (ar_id a) (sig_severity s) (ar_metrics a))
                  = Receipt 1 h
            \<longrightarrow> get_signal (fst (monitor_pass svc commit_error now d)) (sig_id s)
                  = Some (s\<lparr>sig_status := ''sent'', sig_tx_hash := Some h,
                             sig_tx_status := Some ''confirmed'', sig_sent_at := Some now\<rparr>)"
  proof (intro allI impI)
    fix h
    assume h: "w3 svc \<and> account svc \<and> h \<noteq> []
              \<and> ledger svc (prepare_signal svc now (ar_id a) (sig_severity s) (ar_metrics a))
                  = Receipt 1 h"
    then have "send_signal svc now (ar_id a) (sig_severity s) (ar_metrics a) = Some h"
      by (simp add: send_signal_success)
    with m h show "get_signal (fst (monitor_pass svc commit_error now d)) (sig_id s)
                  = Some (s\<lparr>sig_status := ''sent'', sig_tx_hash := Some h,
                             sig_tx_status := Some ''confirmed'', sig_sent_at := Some now\<rparr>)"
      by (simp add: mark_signal_def)
  qed
  have failed: "\<not> w3 svc \<or> \<not> account svc
              \<or> (\<exists>e. ledger svc (prepare_signal svc now (ar_id a) (sig_severity s) (ar_metrics a))
                        = Raised e)
              \<or> (\<exists>st h. ledger svc (prepare_signal svc now (ar_id a) (sig_severity s)
                                       (ar_metrics a)) = Receipt st h \<and> st \<noteq> 1)
            \<longrightarrow> get_signal (fst (monitor_pass svc commit_error now d)) (sig_id s)
                  = Some (s\<lparr>sig_status := ''failed''\<rparr>)"
  proof
    assume "\<not> w3 svc \<or> \<not> account svc
              \<or> (\<exists>e. ledger svc (prepare_signal svc now (ar_id a) (sig_severity s) (ar_metrics a))
                        = Raised e)
              \<or> (\<exists>st h. ledger svc (prepare_signal svc now (ar_id a) (sig_severity s)
                                       (ar_metrics a)) = Receipt st h \<and> st \<noteq> 1)"
    then have "send_signal svc now (ar_id a) (sig_severity s) (ar_metrics a) = None"
      by (rule send_signal_failure)
    with m show "get_signal (fst (monitor_pass svc commit_error now d)) (sig_id s)
                  = Some (s\<lparr>sig_status := ''failed''\<rparr>)"
      by (simp add: mark_signal_def)
  qed
  have jobs: "jobs (fst (monitor_pass svc commit_error now d)) = jobs d"
    by (simp add: monitor_pass_def process_pending_tables)
  have cr: "\<not> commit_raises 0" "\<not> commit_raises 1"
    using assms(6) by simp_all
  have fin: "oracle_signals
               (final d (process_oracle_job commit_raises en t0 t1 jid (sig_analysis_result_id s) d))
             = oracle_signals d"
    by (rule process_oracle_job_signals)
  from process_oracle_job_completed [OF assms(5) assms(3) cr, of en t0 t1]
  have fin2: "map_option job_status
             (get_job (final d (process_oracle_job commit_raises en t0 t1 jid
                                  (sig_analysis_result_id s) d)) jid)
             = Some ''completed''"
    by auto
  have missing: "get_analysis d aid = None
            \<longrightarrow> map_option job_status
                  (get_job (final d (process_oracle_job commit_raises en t0 t1 jid aid d)) jid)
                  = Some ''failed''
                \<and> map_option job_error_message
                    (get_job (final d (process_oracle_job commit_raises en t0 t1 jid aid d)) jid)
                    = Some (Some (''Analysis result '' @ str_nat aid @ '' not found''))"
    using process_oracle_job_failed [OF assms(5) _ cr, of aid en t0 t1] by auto
  from sent failed jobs fin fin2 missing show ?thesis by blast
qed


lemma ex_relay_db_facts:
  "distinct (map sig_id (oracle_signals ex_relay_db))"
  "ex_signal 1 1 ''pending'' \<in> set (pending_signals ex_relay_db)"
  "get_analysis ex_relay_db (sig_analysis_result_id (ex_signal 1 1 ''pending''))
     = Some (ex_analysis 1 (Some ''critical''))"
  "\<forall>x\<in>set (pending_signals ex_relay_db). (\<lambda>i. None :: string option) (sig_id x) = None"
  "get_job ex_relay_db 1 = Some (ex_job 1 ''oracle_signal'' ''pending'')"
  "\<not> (\<lambda>k. False) (0::nat) \<and> \<not> (\<lambda>k. False) (1::nat)"
  by (simp_all add: ex_relay_db_def ex_signal_db_def ex_db_def ex_signal_def ex_analysis_def
        ex_job_def pending_signals_def get_analysis_def get_job_def)

theorem C3_witness:
  "distinct (map sig_id (oracle_signals ex_relay_db))
   \<and> ex_signal 1 1 ''pending'' \<in> set (pending_signals ex_relay_db)
   \<and> get_analysis ex_relay_db 1 = Some (ex_analysis 1 (Some ''critical''))
   \<and> get_job ex_relay_db 1 = Some (ex_job 1 ''oracle_signal'' ''pending'')
   \<and> get_signal (fst (monitor_pass (ex_service (Receipt 1 ''0xfeed'')) (\<lambda>i. None) 20 ex_relay_db)) 1
       = Some ((ex_signal 1 1 ''pending'')\<lparr>sig_status := ''sent'', sig_tx_hash := Some ''0xfeed'',
                  sig_tx_status := Some ''confirmed'', sig_sent_at := Some 20\<rparr>)
   \<and> get_signal (fst (monitor_pass (ex_service (Raised ''timeout'')) (\<lambda>i. None) 20 ex_relay_db)) 1
       = Some ((ex_signal 1 1 ''pending'')\<lparr>sig_status := ''failed''\<rparr>)
   \<and> get_analysis ex_relay_db 7 = None
   \<and> map_option job_status
        (get_job (final ex_relay_db
                    (process_oracle_job (\<lambda>k. False) True 10 11 1 7 ex_relay_db)) 1)
       = Some ''failed''"
proof -
  have k: "sig_id (ex_signal 1 1 ''pending'') = 1"
      "sig_analysis_result_id (ex_signal 1 1 ''pending'') = 1"
      "sig_severity (ex_signal 1 1 ''pending'') = ''critical''"
    by (simp_all add: ex_signal_def)
  have ok: "w3 (ex_service (Receipt 1 ''0xfeed'')) \<and> account (ex_service (Receipt 1 ''0xfeed''))
            \<and> ''0xfeed'' \<noteq> []
            \<and> ledger (ex_service (Receipt 1 ''0xfeed''))
                 (prepare_signal (ex_service (Receipt 1 ''0xfeed'')) 20
                    (ar_id (ex_analysis 1 (Some ''critical'')))
                    (sig_severity (ex_signal 1 1 ''pending''))
                    (ar_metrics (ex_analysis 1 (Some ''critical''))))
               = Receipt 1 ''0xfeed''"
    by (simp add: ex_service_def)
  have bad: "\<exists>e. ledger (ex_service (Raised ''timeout''))
                 (prepare_signal (ex_service (Raised ''timeout'')) 20
                    (ar_id (ex_analysis 1 (Some ''critical'')))
                    (sig_severity (ex_signal 1 1 ''pending''))
                    (ar_metrics (ex_analysis 1 (Some ''critical''))))
               = Raised e"
    by (simp add: ex_service_def)
  have none: "get_analysis ex_relay_db 7 = None"
    by (simp add: ex_relay_db_def ex_signal_db_def ex_db_def ex_analysis_def get_analysis_def)
  note t1 = C3_relay_outcomes [OF ex_relay_db_facts, of "ex_service (Receipt 1 ''0xfeed'')" 20
              True 10 11 7]
  note t2 = C3_relay_outcomes [OF ex_relay_db_facts, of "ex_service (Raised ''timeout'')" 20
              True 10 11 7]
  from t1 ok have a: "get_signal (fst (monitor_pass (ex_service (Receipt 1 ''0xfeed''))
                                        (\<lambda>i. None) 20 ex_relay_db)) 1
       = Some ((ex_signal 1 1 ''pending'')\<lparr>sig_status := ''sent'', sig_tx_hash := Some ''0xfeed'',
                  sig_tx_status := Some ''confirmed'', sig_sent_at := Some 20\<rparr>)"
    unfolding k by blast
  from t2 bad have b: "get_signal (fst (monitor_pass (ex_service (Raised ''timeout''))
                                        (\<lambda>i. None) 20 ex_relay_db)) 1
       = Some ((ex_signal 1 1 ''pending'')\<lparr>sig_status := ''failed''\<rparr>)"
    unfolding k by blast
  from t1 none have c: "map_option job_status
        (get_job (final ex_relay_db
                    (process_oracle_job (\<lambda>k. False) True 10 11 1 7 ex_relay_db)) 1)
       = Some ''failed''"
    by blast
  from ex_relay_db_facts a b c none show ?thesis
    unfolding k by blast
qed

section \<open>The oracle setting\<close>

text \<open>
  C8, as stated, fails on the code: with \<open>ORACLE_ENABLED\<close> off, a critical analysis result
  gets no signal, since the route answers 503 before it reads anything.
\<close>

theorem C8_counterexample:
  "get_analysis (ex_db (Some ''critical'')) 1 = Some (ex_analysis 1 (Some ''critical''))
   \<and> ar_severity (ex_analysis 1 (Some ''critical'')) = Some ''critical''
   \<and> create_oracle_signal False 1 (ex_db (Some ''critical''))
       = (Inl (HTTPException 503 OracleNotEnabled), ex_db (Some ''critical''))
   \<and> oracle_signals (snd (create_oracle_signal False 1 (ex_db (Some ''critical'')))) = []"
  by (simp add: create_oracle_signal_def check_oracle_signal_def get_analysis_def ex_db_def
        ex_analysis_def)

text \<open>
  C8, amended. With \<open>ORACLE_ENABLED\<close> off, creating a signal is refused with 503 and no
  signal row is written, and so is a retry. The relay worker makes no network call, with
  the setting on or off, and never writes the signal table: with the setting off, a job
  whose analysis result exists is completed, its two commits going through, with the
  output \<open>signal_sent = false\<close>. The monitor does not read the setting: it skips the network when its connection or its account is not set,
  and then marks the pending signals it handles failed.
\<close>

theorem C8_oracle_disabled:
  "create_oracle_signal False aid d = (Inl (HTTPException 503 OracleNotEnabled), d)
   \<and> retry_oracle_signal False sid d = (Inl (HTTPException 503 OracleNotEnabled), d)
   \<and> oracle_signals (final d (process_oracle_job commit_raises False t0 t1 jid aid d))
       = oracle_signals d
   \<and> (get_job d jid = Some j \<and> get_analysis d aid = Some a
        \<and> \<not> commit_raises 0 \<and> \<not> commit_raises 1
        \<longrightarrow> map_option job_status
                (get_job (final d (process_oracle_job commit_raises False t0 t1 jid aid d)) jid)
                = Some ''completed''
            \<and> map_option job_output_data
                (get_job (final d (process_oracle_job commit_raises False t0 t1 jid aid d)) jid)
                = Some (JDict [(''signal_sent'', JBool False)]))
   \<and> (\<not> w3 svc \<or> \<not> account svc
        \<longrightarrow> send_signal svc now aid sev metrics = None
            \<and> (distinct (map sig_id (oracle_signals d)) \<and> s \<in> set (pending_signals d)
                 \<and> get_analysis d (sig_analysis_result_id s) = Some a
                 \<and> (\<forall>x\<in>set (pending_signals d). commit_error (sig_id x) = None)
               \<longrightarrow> get_signal (fst (monitor_pass svc commit_error now d)) (sig_id s)
                     = Some (s\<lparr>sig_status := ''failed''\<rparr>)))"
proof -
  have a: "create_oracle_signal False aid d = (Inl (HTTPException 503 OracleNotEnabled), d)"
    by (simp add: create_oracle_signal_def check_oracle_signal_def)
  have b: "retry_oracle_signal False sid d = (Inl (HTTPException 503 OracleNotEnabled), d)"
    by (simp add: retry_oracle_signal_def)
  have c0: "oracle_signals (final d (process_oracle_job commit_raises False t0 t1 jid aid d))
       = oracle_signals d"
    by (rule process_oracle_job_signals)
  have c: "get_job d jid = Some j \<and> get_analysis d aid = Some a
        \<and> \<not> commit_raises 0 \<and> \<not> commit_raises 1
        \<longrightarrow> map_option job_status
                (get_job (final d (process_oracle_job commit_raises False t0 t1 jid aid d)) jid)
                = Some ''completed''
            \<and> map_option job_output_data
                (get_job (final d (process_oracle_job commit_raises False t0 t1 jid aid d)) jid)
                = Some (JDict [(''signal_sent'', JBool False)])"
    using process_oracle_job_completed [of d jid j aid a commit_raises False t0 t1] by auto
  have d: "\<not> w3 svc \<or> \<not> account svc
        \<longrightarrow> send_signal svc now aid sev metrics = None
            \<and> (distinct (map sig_id (oracle_signals d)) \<and> s \<in> set (pending_signals d)
                 \<and> get_analysis d (sig_analysis_result_id s) = Some a
                 \<and> (\<forall>x\<in>set (pending_signals d). commit_error (sig_id x) = None)
               \<longrightarrow> get_signal (fst (monitor_pass svc commit_error now d)) (sig_id s)
                     = Some (s\<lparr>sig_status := ''failed''\<rparr>))"
  proof (intro impI conjI)
    assume off: "\<not> w3 svc \<or> \<not> account svc"
    then show "send_signal svc now aid sev metrics = None"
      by (auto simp: send_signal_def)
    assume h: "distinct (map sig_id (oracle_signals d)) \<and> s \<in> set (pending_signals d)
                 \<and> get_analysis d (sig_analysis_result_id s) = Some a
                 \<and> (\<forall>x\<in>set (pending_signals d). commit_error (sig_id x) = None)"
    have "send_signal svc now (ar_id a) (sig_severity s) (ar_metrics a) = None"
      using off by (auto simp: send_signal_def)
    with monitor_pass_marks [of d s a commit_error svc now] h
    show "get_signal (fst (monitor_pass svc commit_error now d)) (sig_id s)
                     = Some (s\<lparr>sig_status := ''failed''\<rparr>)"
      by (simp add: mark_signal_def)
  qed
  from a b c0 c d show ?thesis by blast
qed

theorem C8_witness:
  "get_job ex_relay_db 1 = Some (ex_job 1 ''oracle_signal'' ''pending'')
   \<and> get_analysis ex_relay_db 1 = Some (ex_analysis 1 (Some ''critical''))
   \<and> map_option job_status
        (get_job (final ex_relay_db (process_oracle_job (\<lambda>k. False) False 10 11 1 1 ex_relay_db)) 1)
       = Some ''completed''
   \<and> map_option job_output_data
        (get_job (final ex_relay_db (process_oracle_job (\<lambda>k. False) False 10 11 1 1 ex_relay_db)) 1)
       = Some (JDict [(''signal_sent'', JBool False)])
   \<and> \<not> w3 ((ex_service (Receipt 1 ''0xfeed''))\<lparr>w3 := False\<rparr>)
   \<and> get_signal (fst (monitor_pass ((ex_service (Receipt 1 ''0xfeed''))\<lparr>w3 := False\<rparr>)
                         (\<lambda>i. None) 20 ex_relay_db)) 1
       = Some ((ex_signal 1 1 ''pending'')\<lparr>sig_status := ''failed''\<rparr>)"
proof -
  have k: "sig_id (ex_signal 1 1 ''pending'') = 1"
      "sig_analysis_result_id (ex_signal 1 1 ''pending'') = 1"
    by (simp_all add: ex_signal_def)
  have off: "\<not> w3 ((ex_service (Receipt 1 ''0xfeed''))\<lparr>w3 := False\<rparr>)"
    by simp
  note t = C8_oracle_disabled [of 1 ex_relay_db 1 "\<lambda>k. False" 10 11 1
             "ex_job 1 ''oracle_signal'' ''pending''" "ex_analysis 1 (Some ''critical'')"
             "(ex_service (Receipt 1 ''0xfeed''))\<lparr>w3 := False\<rparr>" 20 "''critical''" "[]"
             "ex_signal 1 1 ''pending''" "\<lambda>i. None"]
  from t ex_relay_db_facts off show ?thesis
    unfolding k by blast
qed

section \<open>Exceptions in the monitor\<close>

lemma monitor_and_send_Suc:
  "monitor_and_send (Suc n) svc faults clock k d =
     (fst (monitor_and_send n svc faults clock (Suc k)
             (fst (monitor_pass svc (faults k) (clock k) d))),
      snd (monitor_pass svc (faults k) (clock k) d)
        # snd (monitor_and_send n svc faults clock (Suc k)
                 (fst (monitor_pass svc (faults k) (clock k) d))))"
  by (simp split: prod.splits)

lemma monitor_and_send_nth:
  "i < n \<Longrightarrow>
   snd (monitor_and_send n svc faults clock k d) ! i
     = snd (monitor_pass svc (faults (k + i)) (clock (k + i))
              (fst (monitor_and_send i svc faults clock k d)))"
proof (induction n arbitrary: i k d)
  case 0
  then show ?case by simp
next
  case (Suc n)
  show ?case
  proof (cases i)
    case 0
    then show ?thesis by (simp only: monitor_and_send_Suc) simp
  next
    case (Suc i')
    with Suc.prems have lt: "i' < n" by simp
    have "snd (monitor_and_send (Suc n) svc faults clock k d) ! i
            = snd (monitor_and_send n svc faults clock (Suc k)
                     (fst (monitor_pass svc (faults k) (clock k) d))) ! i'"
      by (simp only: monitor_and_send_Suc Suc) simp
    also have "\<dots> = snd (monitor_pass svc (faults (Suc k + i')) (clock (Suc k + i'))
                        (fst (monitor_and_send i' svc faults clock (Suc k)
                                (fst (monitor_pass svc (faults k) (clock k) d)))))"
      by (rule Suc.IH [OF lt])
    also have "fst (monitor_and_send i' svc faults clock (Suc k)
                      (fst (monitor_pass svc (faults k) (clock k) d)))
                 = fst (monitor_and_send i svc faults clock k d)"
      by (simp only: monitor_and_send_Suc Suc) simp
    finally show ?thesis by (simp add: Suc)
  qed
qed

lemma find_distinct_key:
  "distinct (map f xs) \<Longrightarrow> x \<in> set xs \<Longrightarrow> find (\<lambda>y. f y = f x) xs = Some x"
  by (induction xs) force+

lemma get_signal_distinct:
  "distinct (map sig_id (oracle_signals d)) \<Longrightarrow> x \<in> set (oracle_signals d)
   \<Longrightarrow> get_signal d (sig_id x) = Some x"
  by (simp add: get_signal_def find_distinct_key)

lemma get_signal_in_table: "get_signal d i = Some x \<Longrightarrow> x \<in> set (oracle_signals d)"
  by (auto simp: get_signal_def find_Some_iff in_set_conv_nth)

lemma still_pending:
  assumes "distinct (map sig_id (oracle_signals d))"
      and "x \<in> set (pending_signals d)"
      and "get_signal d' (sig_id x) = get_signal d (sig_id x)"
  shows "x \<in> set (pending_signals d')"
proof -
  from assms(2) have m: "x \<in> set (oracle_signals d)"
    and st: "sig_status x = ''pending'' \<and> sig_severity x \<in> set [''high'', ''critical'']"
    by (simp_all add: pending_signals_def)
  from get_signal_distinct [OF assms(1) m] assms(3) have "get_signal d' (sig_id x) = Some x"
    by simp
  then have "x \<in> set (oracle_signals d')" by (rule get_signal_in_table)
  with st show ?thesis by (simp add: pending_signals_def)
qed

lemma get_analysis_monitor_pass [simp]:
  "get_analysis (fst (monitor_pass svc ce now d)) i = get_analysis d i"
  by (simp add: get_analysis_def monitor_pass_def process_pending_tables)

lemma monitor_pass_no_errors:
  "\<forall>x\<in>set (pending_signals d). commit_error (sig_id x) = None
   \<Longrightarrow> snd (monitor_pass svc commit_error now d)
        = (map sig_id (filter (\<lambda>x. get_analysis d (sig_analysis_result_id x) \<noteq> None)
                         (pending_signals d)), None)"
  by (simp add: monitor_pass_def process_pending_no_errors)

lemma monitor_pass_abort:
  assumes "pending_signals d = pre @ s # post"
      and "\<forall>x\<in>set pre. commit_error (sig_id x) = None"
      and "get_analysis d (sig_analysis_result_id s) = Some a"
      and "commit_error (sig_id s) = Some e"
      and "distinct (map sig_id (oracle_signals d))"
  shows "snd (monitor_pass svc commit_error now d)
            = (map sig_id (filter (\<lambda>x. get_analysis d (sig_analysis_result_id x) \<noteq> None) pre)
                 @ [sig_id s], Some e)"
    and "\<forall>x\<in>set (s # post).
                get_signal (fst (monitor_pass svc commit_error now d)) (sig_id x)
                  = get_signal d (sig_id x)"
proof -
  have ab: "process_pending svc commit_error now (pre @ s # post) d []
           = (fst (process_pending svc commit_error now pre d []),
              [] @ map sig_id (filter (\<lambda>x. get_analysis d (sig_analysis_result_id x) \<noteq> None) pre)
                @ [sig_id s],
              Some e)"
    using assms(2-4) by (intro process_pending_abort) auto
  have "distinct (map sig_id (pre @ s # post))"
    using pending_signals_distinct [OF assms(5)] assms(1) by simp
  then have out: "\<forall>x\<in>set (s # post). sig_id x \<notin> sig_id ` set pre"
    by auto
  have un: "\<forall>x\<in>set (s # post).
            get_signal (fst (process_pending svc commit_error now pre d [])) (sig_id x)
              = get_signal d (sig_id x)"
    using out by (auto intro: process_pending_untouched)
  from ab assms(1)
  show "snd (monitor_pass svc commit_error now d)
            = (map sig_id (filter (\<lambda>x. get_analysis d (sig_analysis_result_id x) \<noteq> None) pre)
                 @ [sig_id s], Some e)"
    by (simp add: monitor_pass_def)
  from ab un assms(1)
  show "\<forall>x\<in>set (s # post).
                get_signal (fst (monitor_pass svc commit_error now d)) (sig_id x)
                  = get_signal d (sig_id x)"
    by (simp add: monitor_pass_def)
qed

lemma monitor_and_send_after_error:
  assumes "pending_signals d = pre @ s # post"
      and "\<forall>x\<in>set pre. faults k (sig_id x) = None"
      and "get_analysis d (sig_analysis_result_id s) = Some a"
      and "faults k (sig_id s) = Some e"
      and "distinct (map sig_id (oracle_signals d))"
      and "\<forall>x. faults (Suc k) x = None"
  shows "snd (monitor_and_send (Suc (Suc n)) svc faults clock k d) ! 0
           = (map sig_id (filter (\<lambda>x. get_analysis d (sig_analysis_result_id x) \<noteq> None) pre)
                @ [sig_id s], Some e)"
    and "snd (snd (monitor_and_send (Suc (Suc n)) svc faults clock k d) ! 1) = None"
    and "\<forall>x\<in>set (s # post). get_analysis d (sig_analysis_result_id x) \<noteq> None
           \<longrightarrow> sig_id x \<in> set (fst (snd (monitor_and_send (Suc (Suc n)) svc faults clock k d) ! 1))"
proof -
  define d1 where "d1 = fst (monitor_pass svc (faults k) (clock k) d)"
  have l0: "snd (monitor_and_send (Suc (Suc n)) svc faults clock k d) ! 0
              = snd (monitor_pass svc (faults k) (clock k) d)"
    using monitor_and_send_nth [of 0 "Suc (Suc n)" svc faults clock k d] by simp
  have one: "fst (monitor_and_send (Suc 0) svc faults clock k d) = d1"
    by (simp only: monitor_and_send_Suc d1_def) simp
  have l1: "snd (monitor_and_send (Suc (Suc n)) svc faults clock k d) ! 1
              = snd (monitor_pass svc (faults (Suc k)) (clock (Suc k)) d1)"
    using monitor_and_send_nth [of "Suc 0" "Suc (Suc n)" svc faults clock k d] one by simp
  have ok: "\<forall>x\<in>set (pending_signals d1). faults (Suc k) (sig_id x) = None"
    using assms(6) by simp
  have p1: "snd (monitor_pass svc (faults (Suc k)) (clock (Suc k)) d1)
              = (map sig_id (filter (\<lambda>x. get_analysis d1 (sig_analysis_result_id x) \<noteq> None)
                               (pending_signals d1)), None)"
    by (rule monitor_pass_no_errors [OF ok])
  show "snd (monitor_and_send (Suc (Suc n)) svc faults clock k d) ! 0
           = (map sig_id (filter (\<lambda>x. get_analysis d (sig_analysis_result_id x) \<noteq> None) pre)
                @ [sig_id s], Some e)"
    unfolding l0 by (rule monitor_pass_abort(1) [OF assms(1-5)])
  show "snd (snd (monitor_and_send (Suc (Suc n)) svc faults clock k d) ! 1) = None"
    unfolding l1 p1 by simp
  show "\<forall>x\<in>set (s # post). get_analysis d (sig_analysis_result_id x) \<noteq> None
           \<longrightarrow> sig_id x \<in> set (fst (snd (monitor_and_send (Suc (Suc n)) svc faults clock k d) ! 1))"
  proof (intro ballI impI)
    fix x
    assume x: "x \<in> set (s # post)"
      and ga: "get_analysis d (sig_analysis_result_id x) \<noteq> None"
    from x assms(1) have xp: "x \<in> set (pending_signals d)" by auto
    from monitor_pass_abort(2) [OF assms(1-5), of svc "clock k"] x
    have "get_signal d1 (sig_id x) = get_signal d (sig_id x)"
      unfolding d1_def by blast
    from still_pending [OF assms(5) xp this] have xp1: "x \<in> set (pending_signals d1)" .
    have "get_analysis d1 (sig_analysis_result_id x) \<noteq> None"
      using ga by (simp add: d1_def)
    with xp1 have "sig_id x \<in> set (map sig_id
            (filter (\<lambda>x. get_analysis d1 (sig_analysis_result_id x) \<noteq> None) (pending_signals d1)))"
      by auto
    then show "sig_id x \<in> set (fst (snd (monitor_and_send (Suc (Suc n)) svc faults clock k d) ! 1))"
      unfolding l1 p1 by simp
  qed
qed

text \<open>
  C9, as stated, fails on the code: the \<open>try\<close> of \<open>monitor_and_send\<close> is around the whole
  pass, not around one signal. Here the commit fails while signal 1 is handled: the pass
  ends with the error logged, \<open>send_signal\<close> is never called for signal 2, and signal 2 is
  still pending when the pass is over.
\<close>

theorem C9_counterexample:
  "map sig_id (pending_signals ex_two_signals_db) = [1, 2]
   \<and> snd (monitor_pass (ex_service (Receipt 1 ''0xfeed'')) ex_commit_error 20 ex_two_signals_db)
       = ([1], Some ''connection lost'')
   \<and> map_option sig_status
        (get_signal (fst (monitor_pass (ex_service (Receipt 1 ''0xfeed'')) ex_commit_error 20
                            ex_two_signals_db)) 2)
       = Some ''pending''"
  by (simp add: monitor_pass_def pending_signals_def get_signal_def get_analysis_def
        ex_two_signals_db_def ex_signal_def ex_analysis_def ex_commit_error_def Let_def)

text \<open>
  C9, amended. An exception inside \<open>send_signal\<close> (assembling, signing, submitting, awaiting
  the receipt) is caught there, so whatever the ledger does, a pass whose commits succeed
  calls \<open>send_signal\<close> for every pending high or critical signal that has its analysis
  result, in order, and logs no error. An exception that escapes the handling of one
  signal, such as a failing commit, is logged and ends that pass: the signals before it
  are handled, the signals after it are not attempted and stay as they were. The loop goes
  on all the same: pass \<open>i\<close> is a whole pass over the database the passes before it left,
  whatever they met; so when a pass has ended on an error and the commits of the next pass
  succeed, the next pass logs no error and calls \<open>send_signal\<close> for the signal the error
  came on and for every signal after it that has its analysis result.
\<close>

theorem C9_monitor_exceptions:
  "((\<forall>x\<in>set (pending_signals d). commit_error (sig_id x) = None)
      \<longrightarrow> snd (monitor_pass svc commit_error now d)
            = (map sig_id (filter (\<lambda>x. get_analysis d (sig_analysis_result_id x) \<noteq> None)
                             (pending_signals d)), None))
   \<and> (pending_signals d = pre @ s # post
        \<and> (\<forall>x\<in>set pre. commit_error (sig_id x) = None)
        \<and> get_analysis d (sig_analysis_result_id s) = Some a
        \<and> commit_error (sig_id s) = Some e
        \<and> distinct (map sig_id (oracle_signals d))
      \<longrightarrow> snd (monitor_pass svc commit_error now d)
            = (map sig_id (filter (\<lambda>x. get_analysis d (sig_analysis_result_id x) \<noteq> None) pre)
                 @ [sig_id s], Some e)
          \<and> (\<forall>x\<in>set (s # post).
                get_signal (fst (monitor_pass svc commit_error now d)) (sig_id x)
                  = get_signal d (sig_id x)))
   \<and> (i < n
      \<longrightarrow> snd (monitor_and_send n svc faults clock k d) ! i
            = snd (monitor_pass svc (faults (k + i)) (clock (k + i))
                     (fst (monitor_and_send i svc faults clock k d))))
   \<and> (pending_signals d = pre @ s # post
        \<and> (\<forall>x\<in>set pre. faults k (sig_id x) = None)
        \<and> get_analysis d (sig_analysis_result_id s) = Some a
        \<and> faults k (sig_id s) = Some e
        \<and> distinct (map sig_id (oracle_signals d))
        \<and> (\<forall>x. faults (Suc k) x = None)
      \<longrightarrow> snd (monitor_and_send (Suc (Suc m)) svc faults clock k d) ! 0
            = (map sig_id (filter (\<lambda>x. get_analysis d (sig_analysis_result_id x) \<noteq> None) pre)
                 @ [sig_id s], Some e)
          \<and> snd (snd (monitor_and_send (Suc (Suc m)) svc faults clock k d) ! 1) = None
          \<and> (\<forall>x\<in>set (s # post). get_analysis d (sig_analysis_result_id x) \<noteq> None
                \<longrightarrow> sig_id x
                      \<in> set (fst (snd (monitor_and_send (Suc (Suc m)) svc faults clock k d) ! 1))))"
proof -
  have a: "(\<forall>x\<in>set (pending_signals d). commit_error (sig_id x) = None)
      \<longrightarrow> snd (monitor_pass svc commit_error now d)
            = (map sig_id (filter (\<lambda>x. get_analysis d (sig_analysis_result_id x) \<noteq> None)
                             (pending_signals d)), None)"
    using monitor_pass_no_errors [of d commit_error svc now] by blast
  have b: "pending_signals d = pre @ s # post
        \<and> (\<forall>x\<in>set pre. commit_error (sig_id x) = None)
        \<and> get_analysis d (sig_analysis_result_id s) = Some a
        \<and> commit_error (sig_id s) = Some e
        \<and> distinct (map sig_id (oracle_signals d))
      \<longrightarrow> snd (monitor_pass svc commit_error now d)
            = (map sig_id (filter (\<lambda>x. get_analysis d (sig_analysis_result_id x) \<noteq> None) pre)
                 @ [sig_id s], Some e)
          \<and> (\<forall>x\<in>set (s # post).
                get_signal (fst (monitor_pass svc commit_error now d)) (sig_id x)
                  = get_signal d (sig_id x))"
    using monitor_pass_abort [of d pre s post commit_error a e svc now] by blast
  have c: "i < n
      \<longrightarrow> snd (monitor_and_send n svc faults clock k d) ! i
            = snd (monitor_pass svc (faults (k + i)) (clock (k + i))
                     (fst (monitor_and_send i svc faults clock k d)))"
    using monitor_and_send_nth [of i n svc faults clock k d] by blast
  have e: "pending_signals d = pre @ s # post
        \<and> (\<forall>x\<in>set pre. faults k (sig_id x) = None)
        \<and> get_analysis d (sig_analysis_result_id s) = Some a
        \<and> faults k (sig_id s) = Some e
        \<and> distinct (map sig_id (oracle_signals d))
        \<and> (\<forall>x. faults (Suc k) x = None)
      \<longrightarrow> snd (monitor_and_send (Suc (Suc m)) svc faults clock k d) ! 0
            = (map sig_id (filter (\<lambda>x. get_analysis d (sig_analysis_result_id x) \<noteq> None) pre)
                 @ [sig_id s], Some e)
          \<and> snd (snd (monitor_and_send (Suc (Suc m)) svc faults clock k d) ! 1) = None
          \<and> (\<forall>x\<in>set (s # post). get_analysis d (sig_analysis_result_id x) \<noteq> None
                \<longrightarrow> sig_id x
                      \<in> set (fst (snd (monitor_and_send (Suc (Suc m)) svc faults clock k d) ! 1)))"
    using monitor_and_send_after_error [of d pre s post faults k a e m svc clock] by blast
  from a b c e show ?thesis by blast
qed

theorem C9_witness:
  "snd (monitor_pass (ex_service (Raised ''timeout'')) (\<lambda>i. None) 20 ex_two_signals_db)
       = ([1, 2], None)
   \<and> pending_signals ex_two_signals_db
       = [] @ ex_signal 1 1 ''pending'' # [ex_signal 2 2 ''pending'']
   \<and> ex_commit_error (sig_id (ex_signal 1 1 ''pending'')) = Some ''connection lost''
   \<and> snd (monitor_pass (ex_service (Raised ''timeout'')) ex_commit_error 20 ex_two_signals_db)
       = ([1], Some ''connection lost'')
   \<and> get_signal (fst (monitor_pass (ex_service (Raised ''timeout'')) ex_commit_error 20
                         ex_two_signals_db)) 2
       = get_signal ex_two_signals_db 2
   \<and> snd (monitor_and_send 3 (ex_service (Raised ''timeout'')) ex_first_pass_fails
             (\<lambda>k. 20 + k) 0 ex_two_signals_db) ! 0
       = ([1], Some ''connection lost'')
   \<and> snd (snd (monitor_and_send 3 (ex_service (Raised ''timeout'')) ex_first_pass_fails
                  (\<lambda>k. 20 + k) 0 ex_two_signals_db) ! 1) = None
   \<and> 1 \<in> set (fst (snd (monitor_and_send 3 (ex_service (Raised ''timeout'')) ex_first_pass_fails
                            (\<lambda>k. 20 + k) 0 ex_two_signals_db) ! 1))
   \<and> 2 \<in> set (fst (snd (monitor_and_send 3 (ex_service (Raised ''timeout'')) ex_first_pass_fails
                            (\<lambda>k. 20 + k) 0 ex_two_signals_db) ! 1))
   \<and> snd (monitor_and_send 3 (ex_service (Raised ''timeout'')) ex_first_pass_fails
             (\<lambda>k. 20 + k) 0 ex_two_signals_db) ! 2
       = snd (monitor_pass (ex_service (Raised ''timeout'')) (ex_first_pass_fails 2) 22
                (fst (monitor_and_send 2 (ex_service (Raised ''timeout'')) ex_first_pass_fails
                        (\<lambda>k. 20 + k) 0 ex_two_signals_db)))
   \<and> snd (monitor_and_send 3 (ex_service (Raised ''timeout'')) ex_first_pass_fails
             (\<lambda>k. 20 + k) 0 ex_two_signals_db)
       = [([1], Some ''connection lost''), ([1, 2], None), ([], None)]"
proof -
  have p: "pending_signals ex_two_signals_db
             = [] @ ex_signal 1 1 ''pending'' # [ex_signal 2 2 ''pending'']"
    by (simp add: pending_signals_def ex_two_signals_db_def ex_signal_def)
  have k: "sig_id (ex_signal 1 1 ''pending'') = 1" "sig_id (ex_signal 2 2 ''pending'') = 2"
      "sig_analysis_result_id (ex_signal 1 1 ''pending'') = 1"
      "sig_analysis_result_id (ex_signal 2 2 ''pending'') = 2"
    by (simp_all add: ex_signal_def)
  have ok: "\<forall>x\<in>set (pending_signals ex_two_signals_db). (\<lambda>i. None :: string option) (sig_id x) = None"
    by simp
  have ce: "ex_commit_error (sig_id (ex_signal 1 1 ''pending'')) = Some ''connection lost''"
    by (simp add: ex_commit_error_def ex_signal_def)
  have fe: "ex_first_pass_fails 0 (sig_id (ex_signal 1 1 ''pending'')) = Some ''connection lost''"
    by (simp add: ex_first_pass_fails_def ex_commit_error_def ex_signal_def)
  have nx: "\<forall>x. ex_first_pass_fails (Suc 0) x = None"
    by (simp add: ex_first_pass_fails_def)
  have di: "distinct (map sig_id (oracle_signals ex_two_signals_db))"
    by (simp add: ex_two_signals_db_def ex_signal_def)
  have three: "Suc (Suc 1) = (3::nat)" by simp
  note t1 = C9_monitor_exceptions [of ex_two_signals_db "\<lambda>i. None"
              "ex_service (Raised ''timeout'')" 20 "[]" "ex_signal 1 1 ''pending''"
              "[ex_signal 2 2 ''pending'']" "ex_analysis 1 (Some ''critical'')" "''x''"
              2 3 ex_first_pass_fails "\<lambda>k. 20 + k" 0 1]
  note t2 = C9_monitor_exceptions [of ex_two_signals_db ex_commit_error
              "ex_service (Raised ''timeout'')" 20 "[]" "ex_signal 1 1 ''pending''"
              "[ex_signal 2 2 ''pending'']" "ex_analysis 1 (Some ''critical'')"
              "''connection lost''" 2 3 ex_first_pass_fails "\<lambda>k. 20 + k" 0 1]
  have f: "map sig_id (filter (\<lambda>x. get_analysis ex_two_signals_db (sig_analysis_result_id x) \<noteq> None)
                         (pending_signals ex_two_signals_db)) = [1, 2]"
    by (simp add: pending_signals_def get_analysis_def ex_two_signals_db_def ex_signal_def
          ex_analysis_def)
  have g: "map sig_id (filter (\<lambda>x. get_analysis ex_two_signals_db (sig_analysis_result_id x) \<noteq> None)
                         []) @ [sig_id (ex_signal 1 1 ''pending'')] = [1]"
    by (simp add: ex_signal_def)
  have ga1: "get_analysis ex_two_signals_db (sig_analysis_result_id (ex_signal 1 1 ''pending''))
               = Some (ex_analysis 1 (Some ''critical''))"
    by (simp add: get_analysis_def ex_two_signals_db_def ex_analysis_def ex_signal_def)
  have ga2: "get_analysis ex_two_signals_db (sig_analysis_result_id (ex_signal 1 1 ''pending''))
               \<noteq> None"
      "get_analysis ex_two_signals_db (sig_analysis_result_id (ex_signal 2 2 ''pending''))
               \<noteq> None"
    by (simp_all add: get_analysis_def ex_two_signals_db_def ex_analysis_def ex_signal_def)
  from t1 ok have a: "snd (monitor_pass (ex_service (Raised ''timeout'')) (\<lambda>i. None) 20
                             ex_two_signals_db) = ([1, 2], None)"
    unfolding f by blast
  have pre: "\<forall>x\<in>set []. ex_commit_error (sig_id x) = None"
    by simp
  have pre': "\<forall>x\<in>set []. ex_first_pass_fails 0 (sig_id x) = None"
    by simp
  from t2 p ce ga1 di pre
  have b0: "snd (monitor_pass (ex_service (Raised ''timeout'')) ex_commit_error 20 ex_two_signals_db)
       = ([1], Some ''connection lost'')
     \<and> (\<forall>x\<in>set (ex_signal 1 1 ''pending'' # [ex_signal 2 2 ''pending'']).
          get_signal (fst (monitor_pass (ex_service (Raised ''timeout'')) ex_commit_error 20
                         ex_two_signals_db)) (sig_id x)
            = get_signal ex_two_signals_db (sig_id x))"
    unfolding g by blast
  then have b: "snd (monitor_pass (ex_service (Raised ''timeout'')) ex_commit_error 20
                       ex_two_signals_db) = ([1], Some ''connection lost'')"
    and b': "get_signal (fst (monitor_pass (ex_service (Raised ''timeout'')) ex_commit_error 20
                         ex_two_signals_db)) (sig_id (ex_signal 2 2 ''pending''))
            = get_signal ex_two_signals_db (sig_id (ex_signal 2 2 ''pending''))"
    by simp_all
  from t2 p fe ga1 di pre' nx
  have c0: "snd (monitor_and_send (Suc (Suc 1)) (ex_service (Raised ''timeout''))
                   ex_first_pass_fails (\<lambda>k. 20 + k) 0 ex_two_signals_db) ! 0
              = ([1], Some ''connection lost'')
     \<and> snd (snd (monitor_and_send (Suc (Suc 1)) (ex_service (Raised ''timeout''))
                    ex_first_pass_fails (\<lambda>k. 20 + k) 0 ex_two_signals_db) ! 1) = None
     \<and> (\<forall>x\<in>set (ex_signal 1 1 ''pending'' # [ex_signal 2 2 ''pending'']).
           get_analysis ex_two_signals_db (sig_analysis_result_id x) \<noteq> None
           \<longrightarrow> sig_id x
                 \<in> set (fst (snd (monitor_and_send (Suc (Suc 1)) (ex_service (Raised ''timeout''))
                                    ex_first_pass_fails (\<lambda>k. 20 + k) 0 ex_two_signals_db) ! 1)))"
    unfolding g by blast
  with ga2
  have c: "snd (monitor_and_send 3 (ex_service (Raised ''timeout'')) ex_first_pass_fails
             (\<lambda>k. 20 + k) 0 ex_two_signals_db) ! 0
       = ([1], Some ''connection lost'')"
    "snd (snd (monitor_and_send 3 (ex_service (Raised ''timeout'')) ex_first_pass_fails
                  (\<lambda>k. 20 + k) 0 ex_two_signals_db) ! 1) = None"
    "sig_id (ex_signal 1 1 ''pending'')
       \<in> set (fst (snd (monitor_and_send 3 (ex_service (Raised ''timeout'')) ex_first_pass_fails
                            (\<lambda>k. 20 + k) 0 ex_two_signals_db) ! 1))"
    "sig_id (ex_signal 2 2 ''pending'')
       \<in> set (fst (snd (monitor_and_send 3 (ex_service (Raised ''timeout'')) ex_first_pass_fails
                            (\<lambda>k. 20 + k) 0 ex_two_signals_db) ! 1))"
    unfolding three by simp_all
  have lt: "(2::nat) < 3" by simp
  have z: "(0::nat) + 2 = 2" "(20::nat) + 2 = 22" by simp_all
  from t1 lt
  have e0: "snd (monitor_and_send 3 (ex_service (Raised ''timeout'')) ex_first_pass_fails
             (\<lambda>k. 20 + k) 0 ex_two_signals_db) ! 2
       = snd (monitor_pass (ex_service (Raised ''timeout'')) (ex_first_pass_fails (0 + 2))
                (20 + (0 + 2))
                (fst (monitor_and_send 2 (ex_service (Raised ''timeout'')) ex_first_pass_fails
                        (\<lambda>k. 20 + k) 0 ex_two_signals_db)))"
    by blast
  then have e: "snd (monitor_and_send 3 (ex_service (Raised ''timeout'')) ex_first_pass_fails
             (\<lambda>k. 20 + k) 0 ex_two_signals_db) ! 2
       = snd (monitor_pass (ex_service (Raised ''timeout'')) (ex_first_pass_fails 2) 22
                (fst (monitor_and_send 2 (ex_service (Raised ''timeout'')) ex_first_pass_fails
                        (\<lambda>k. 20 + k) 0 ex_two_signals_db)))"
    unfolding z .
  have run: "snd (monitor_and_send 3 (ex_service (Raised ''timeout'')) ex_first_pass_fails
             (\<lambda>k. 20 + k) 0 ex_two_signals_db)
       = [([1], Some ''connection lost''), ([1, 2], None), ([], None)]"
    by (simp add: eval_nat_numeral monitor_pass_def pending_signals_def get_signal_def
          get_analysis_def put_signal_def mark_signal_def send_signal_def
          ex_first_pass_fails_def ex_commit_error_def ex_two_signals_db_def ex_signal_def
          ex_analysis_def ex_service_def Let_def)
  from a b b' c e run p ce show ?thesis
    unfolding k by blast
qed

section \<open>Job statuses\<close>

lemma job_ids_put_job [simp]: "job_id ` set (jobs (put_job j d)) = job_id ` set (jobs d)"
proof -
  have "map job_id (map (\<lambda>x. if job_id x = job_id j then j else x) (jobs d)) = map job_id (jobs d)"
    by (induction "jobs d") (auto simp: comp_def intro: map_cong)
  then have "map job_id (jobs (put_job j d)) = map job_id (jobs d)"
    by (simp add: put_job_def)
  then have "set (map job_id (jobs (put_job j d))) = set (map job_id (jobs d))"
    by simp
  then show ?thesis by simp
qed

lemma job_ids_fail_job [simp]: "job_id ` set (jobs (fail_job j e t d)) = job_id ` set (jobs d)"
  by (simp add: fail_job_def)





lemma jobs_commit_events [simp]: "jobs (commit_events p d) = jobs d"
  by (simp add: commit_events_def)

lemma jobs_put_dataset [simp]: "jobs (put_dataset x d) = jobs d"
  by (simp add: put_dataset_def)

lemma get_job_commit_events [simp]: "get_job (commit_events p d) i = get_job d i"
  by (simp add: get_job_def commit_events_def)

lemma jobs_add_analyses [simp]: "jobs (add_analyses rs d) = jobs d"
  by (induction rs arbitrary: d) simp_all

lemma get_job_put_dataset [simp]: "get_job (put_dataset x d) i = get_job d i"
  by (simp add: get_job_def put_dataset_def)

lemma get_job_add_analyses [simp]: "get_job (add_analyses rs d) i = get_job d i"
  by (simp add: get_job_def)








section \<open>Storing extracted events\<close>

section \<open>Storing extracted events\<close>












section \<open>The content hash\<close>

lemma fetch_web_page_hash:
  "fetch_web_page sha256 (Inr extracted) url fetched_at
     = Inr (dict_set (dict_set (dict_set extracted ''url'' (JStr url)) ''fetched_at''
                        (JStr fetched_at))
              ''content_hash''
              (JStr (sha256 (content_str
                               (dict_set (dict_set extracted ''url'' (JStr url)) ''fetched_at''
                                  (JStr fetched_at))))))"
  by (simp add: fetch_web_page_def generate_hash_def Let_def)

text \<open>
  C7: the code departs from the specification. \<open>ScrapingService._generate_hash\<close> hashes
  \<open>str(sorted(data.items()))\<close> of the whole dictionary, and \<open>fetch_web_page\<close> calls it
  after it has put \<open>url\<close> and \<open>fetched_at\<close> (the time of the fetch) into that dictionary.
  Sorting the items makes the text independent of the order of the keys; the fetch time
  is part of the text. The same page fetched at two times therefore gives two different
  texts, and the two hashes agree only if SHA-256 collides on them: the stored event of
  the first fetch never makes the second a duplicate. The sibling
  \<open>SocialService._generate_hash\<close> hashes the fields \<open>id\<close> and \<open>platform\<close> alone, and gives one
  text for a post whatever its other fields are.
\<close>

theorem C7_hash_covers_fetch_time:
  "fetch_web_page sha256 (Inr ex_page) ''http://a'' ''2024-01-01T00:00:00''
     = Inr [(''title'', JStr ''A''), (''url'', JStr ''http://a''),
            (''fetched_at'', JStr ''2024-01-01T00:00:00''),
            (''content_hash'',
               JStr (sha256 ''[('fetched_at', '2024-01-01T00:00:00'), ('title', 'A'), ('url', 'http://a')]''))]
   \<and> fetch_web_page sha256 (Inr ex_page) ''http://a'' ''2024-01-01T00:00:01''
     = Inr [(''title'', JStr ''A''), (''url'', JStr ''http://a''),
            (''fetched_at'', JStr ''2024-01-01T00:00:01''),
            (''content_hash'',
               JStr (sha256 ''[('fetched_at', '2024-01-01T00:00:01'), ('title', 'A'), ('url', 'http://a')]''))]
   \<and> content_str [(''title'', JStr ''A''), (''url'', JStr ''http://a''),
                   (''fetched_at'', JStr ''2024-01-01T00:00:00'')]
       \<noteq> content_str [(''title'', JStr ''A''), (''url'', JStr ''http://a''),
                       (''fetched_at'', JStr ''2024-01-01T00:00:01'')]
   \<and> content_str [(''fetched_at'', JStr ''2024-01-01T00:00:00''), (''url'', JStr ''http://a''),
                   (''title'', JStr ''A'')]
       = content_str [(''title'', JStr ''A''), (''url'', JStr ''http://a''),
                      (''fetched_at'', JStr ''2024-01-01T00:00:00'')]
   \<and> social_content_str (ex_post ''2024-01-01T00:00:00'')
       = ''{'id': 'tweet_42', 'platform': 'twitter'}''
   \<and> social_content_str (ex_post ''2024-01-01T00:00:01'')
       = ''{'id': 'tweet_42', 'platform': 'twitter'}''"
proof -
  have s0: "content_str [(''title'', JStr ''A''), (''url'', JStr ''http://a''),
                          (''fetched_at'', JStr ''2024-01-01T00:00:00'')]
       = ''[('fetched_at', '2024-01-01T00:00:00'), ('title', 'A'), ('url', 'http://a')]''"
    by code_simp
  have s1: "content_str [(''title'', JStr ''A''), (''url'', JStr ''http://a''),
                          (''fetched_at'', JStr ''2024-01-01T00:00:01'')]
       = ''[('fetched_at', '2024-01-01T00:00:01'), ('title', 'A'), ('url', 'http://a')]''"
    by code_simp
  have s2: "content_str [(''fetched_at'', JStr ''2024-01-01T00:00:00''), (''url'', JStr ''http://a''),
                   (''title'', JStr ''A'')]
       = ''[('fetched_at', '2024-01-01T00:00:00'), ('title', 'A'), ('url', 'http://a')]''"
    by code_simp
  have d: "dict_set (dict_set ex_page ''url'' (JStr ''http://a'')) ''fetched_at'' (JStr t)
             = [(''title'', JStr ''A''), (''url'', JStr ''http://a''), (''fetched_at'', JStr t)]"
    for t
    by (simp add: ex_page_def)
  have a: "fetch_web_page sha256 (Inr ex_page) ''http://a'' ''2024-01-01T00:00:00''
     = Inr [(''title'', JStr ''A''), (''url'', JStr ''http://a''),
            (''fetched_at'', JStr ''2024-01-01T00:00:00''),
            (''content_hash'',
               JStr (sha256 ''[('fetched_at', '2024-01-01T00:00:00'), ('title', 'A'), ('url', 'http://a')]''))]"
    unfolding fetch_web_page_hash d s0 by simp
  have b: "fetch_web_page sha256 (Inr ex_page) ''http://a'' ''2024-01-01T00:00:01''
     = Inr [(''title'', JStr ''A''), (''url'', JStr ''http://a''),
            (''fetched_at'', JStr ''2024-01-01T00:00:01''),
            (''content_hash'',
               JStr (sha256 ''[('fetched_at', '2024-01-01T00:00:01'), ('title', 'A'), ('url', 'http://a')]''))]"
    unfolding fetch_web_page_hash d s1 by simp
  have c: "content_str [(''title'', JStr ''A''), (''url'', JStr ''http://a''),
                   (''fetched_at'', JStr ''2024-01-01T00:00:00'')]
       \<noteq> content_str [(''title'', JStr ''A''), (''url'', JStr ''http://a''),
                       (''fetched_at'', JStr ''2024-01-01T00:00:01'')]"
    unfolding s0 s1 by simp
  have e: "content_str [(''fetched_at'', JStr ''2024-01-01T00:00:00''), (''url'', JStr ''http://a''),
                   (''title'', JStr ''A'')]
       = content_str [(''title'', JStr ''A''), (''url'', JStr ''http://a''),
                      (''fetched_at'', JStr ''2024-01-01T00:00:00'')]"
    unfolding s0 s2 by (rule refl)
  have f: "social_content_str (ex_post ''2024-01-01T00:00:00'')
       = ''{'id': 'tweet_42', 'platform': 'twitter'}''"
    by code_simp
  have g: "social_content_str (ex_post ''2024-01-01T00:00:01'')
       = ''{'id': 'tweet_42', 'platform': 'twitter'}''"
    by code_simp
  from a b c e f g show ?thesis by blast
qed

end
